theory Spec2Isabelle
  imports Complex_Main "HOL-Library.Multiset"
begin

section \<open>Python values reaching the rule engine\<close>

text \<open>
  The dashboard script \<^verbatim>\<open>siem_desktop_app/app.py\<close> classifies the cells of a
  pandas table. A float is a binary64 value: it is modelled by the number it denotes,
  together with the three special values of IEEE arithmetic. Comparison is the exact
  comparison of IEEE floats (every comparison with NaN is false). A float literal of
  the source, such as \<^verbatim>\<open>0.70\<close>, denotes the binary64 value nearest to the decimal
  it spells, and so does every conversion of a string or an int to a float.
\<close>

datatype pyfloat = Num real | PosInf | NegInf | NaN

fun float_ge :: "pyfloat \<Rightarrow> pyfloat \<Rightarrow> bool" where
  "float_ge NaN _ = False"
| "float_ge _ NaN = False"
| "float_ge PosInf _ = True"
| "float_ge _ NegInf = True"
| "float_ge (Num a) (Num b) = (b \<le> a)"
| "float_ge _ _ = False"

fun float_lt :: "pyfloat \<Rightarrow> pyfloat \<Rightarrow> bool" where
  "float_lt NaN _ = False"
| "float_lt _ NaN = False"
| "float_lt PosInf _ = False"
| "float_lt _ NegInf = False"
| "float_lt (Num a) (Num b) = (a < b)"
| "float_lt _ _ = True"

fun float_neg :: "pyfloat \<Rightarrow> pyfloat" where
  "float_neg (Num a) = Num (- a)"
| "float_neg PosInf = NegInf"
| "float_neg NegInf = PosInf"
| "float_neg NaN = NaN"

text \<open>
  A cell or an argument is a Python object: a float, an int, a bool, a string, or
  \<^verbatim>\<open>None\<close> (standing for the objects \<^verbatim>\<open>float()\<close> rejects by type). A string
  is held as its UTF-8 bytes.
\<close>

datatype pyval = PyFloat pyfloat | PyInt int | PyBool bool | PyStr string | PyNone

datatype pyexc = ValueError | TypeError | OverflowError | KeyError string | IndexError
  | FileNotFoundError string

subsection \<open>Rounding to binary64\<close>

text \<open>
  \<open>binary64_round p q\<close> is the binary64 value nearest to the fraction \<open>p / q\<close> of two
  positive integers, ties going to the even significand: 53 significant bits down to
  the exponent \<open>-1074\<close> of the subnormal numbers, and infinity from \<open>2 ^ 1024\<close> on.
\<close>

function bit_length :: "int \<Rightarrow> int" where
  "bit_length n = (if n \<le> 0 then 0 else 1 + bit_length (n div 2))"
  by pat_completeness auto
termination
  by (relation "measure nat") auto

declare bit_length.simps [simp del]

definition round_half_even :: "int \<Rightarrow> int \<Rightarrow> int" where
  "round_half_even p q =
     (let d = p div q; r = p mod q
      in if 2 * r < q then d else if q < 2 * r then d + 1 else if even d then d else d + 1)"

definition floor_log2 :: "int \<Rightarrow> int \<Rightarrow> int" where
  "floor_log2 p q =
     (let d = bit_length p - bit_length q
      in if (if 0 \<le> d then q * 2 ^ nat d \<le> p else q \<le> p * 2 ^ nat (- d)) then d else d - 1)"

definition scale2 :: "int \<Rightarrow> int \<Rightarrow> real" where
  "scale2 m k = (if 0 \<le> k then real_of_int (m * 2 ^ nat k) else real_of_int m / 2 ^ nat (- k))"

definition binary64_round :: "int \<Rightarrow> int \<Rightarrow> pyfloat" where
  "binary64_round p q =
     (if p = 0 then Num 0
      else (let e = floor_log2 p q; k = max (e - 52) (- 1074);
                m = (if 0 \<le> k then round_half_even p (q * 2 ^ nat k)
                     else round_half_even (p * 2 ^ nat (- k)) q)
            in if 0 \<le> k \<and> 2 ^ 1024 \<le> m * 2 ^ nat k then PosInf else Num (scale2 m k)))"

subsection \<open>The built-in \<^verbatim>\<open>float()\<close>\<close>

text \<open>
  \<^verbatim>\<open>float(s)\<close> on a string first maps every character from U+007F on to ASCII: a
  Unicode white space becomes a blank, a Unicode decimal digit its ASCII digit, and any
  other character makes the conversion fail. The white space and the decimal digits
  (each script's digits are ten consecutive code points, listed by their zero) are those
  of Unicode 14.0, the tables of CPython 3.11. Bytes that are not well-formed UTF-8
  encode no string and are rejected.
\<close>

definition unicode_space :: "int list" where
  "unicode_space =
     [0x85, 0xA0, 0x1680, 0x2000, 0x2001, 0x2002, 0x2003, 0x2004, 0x2005, 0x2006, 0x2007,
      0x2008, 0x2009, 0x200A, 0x2028, 0x2029, 0x202F, 0x205F, 0x3000]"

definition unicode_decimal_zero :: "int list" where
  "unicode_decimal_zero =
     [0x660, 0x6F0, 0x7C0, 0x966, 0x9E6, 0xA66, 0xAE6, 0xB66, 0xBE6, 0xC66, 0xCE6, 0xD66,
      0xDE6, 0xE50, 0xED0, 0xF20, 0x1040, 0x1090, 0x17E0, 0x1810, 0x1946, 0x19D0, 0x1A80,
      0x1A90, 0x1B50, 0x1BB0, 0x1C40, 0x1C50, 0xA620, 0xA8D0, 0xA900, 0xA9D0, 0xA9F0,
      0xAA50, 0xABF0, 0xFF10, 0x104A0, 0x10D30, 0x11066, 0x110F0, 0x11136, 0x111D0,
      0x112F0, 0x11450, 0x114D0, 0x11650, 0x116C0, 0x11730, 0x118E0, 0x11950, 0x11C50,
      0x11D50, 0x11DA0, 0x16A60, 0x16AC0, 0x16B50, 0x1D7CE, 0x1D7D8, 0x1D7E2, 0x1D7EC,
      0x1D7F6, 0x1E140, 0x1E2F0, 0x1E950, 0x1FBF0]"

definition continuation :: "int \<Rightarrow> bool" where
  "continuation b = (0x80 \<le> b \<and> b < 0xC0)"

fun utf8_decode :: "int list \<Rightarrow> int list option" where
  "utf8_decode [] = Some []"
| "utf8_decode (b # bs) =
     (if b < 0x80 then map_option (Cons b) (utf8_decode bs)
      else if 0xC2 \<le> b \<and> b < 0xE0 then
        (case bs of
           c # r \<Rightarrow> if continuation c
                    then map_option (Cons ((b - 0xC0) * 64 + (c - 0x80))) (utf8_decode r)
                    else None
         | _ \<Rightarrow> None)
      else if 0xE0 \<le> b \<and> b < 0xF0 then
        (case bs of
           c # d # r \<Rightarrow> if continuation c \<and> continuation d
                        then map_option (Cons ((b - 0xE0) * 4096 + (c - 0x80) * 64 + (d - 0x80)))
                               (utf8_decode r)
                        else None
         | _ \<Rightarrow> None)
      else if 0xF0 \<le> b \<and> b < 0xF5 then
        (case bs of
           c # d # e # r \<Rightarrow> if continuation c \<and> continuation d \<and> continuation e
                            then map_option (Cons ((b - 0xF0) * 262144 + (c - 0x80) * 4096
                                                    + (d - 0x80) * 64 + (e - 0x80)))
                                   (utf8_decode r)
                            else None
         | _ \<Rightarrow> None)
      else None)"

definition to_ascii :: "int \<Rightarrow> char option" where
  "to_ascii cp =
     (if cp < 127 then Some (char_of cp)
      else if cp \<in> set unicode_space then Some (CHR '' '')
      else (case List.find (\<lambda>z. z \<le> cp \<and> cp < z + 10) unicode_decimal_zero of
              Some z \<Rightarrow> Some (''0123456789'' ! nat (cp - z))
            | None \<Rightarrow> None))"

definition transform_decimal_and_space :: "string \<Rightarrow> string option" where
  "transform_decimal_and_space s =
     (case utf8_decode (map of_char s) of
        None \<Rightarrow> None
      | Some cps \<Rightarrow> those (map to_ascii cps))"

text \<open>
  The ASCII text is then stripped of leading and trailing ASCII white space and must
  spell \<^verbatim>\<open>[sign] (floatnumber | "inf" | "infinity" | "nan")\<close>, letters in either
  case, where
  \<^verbatim>\<open>floatnumber ::= ([digitpart] "." digitpart | digitpart ["."]) [("e"|"E") [sign] digitpart]\<close>
  and \<^verbatim>\<open>digitpart ::= digit (["_"] digit)*\<close>; anything else raises ValueError. The
  decimal is rounded to binary64, so a decimal beyond the range becomes infinity.
\<close>

definition is_space :: "char \<Rightarrow> bool" where
  "is_space c = (c \<in> set [CHR '' '', CHR 0x09, CHR 0x0A, CHR 0x0B, CHR 0x0C, CHR 0x0D])"

definition strip :: "string \<Rightarrow> string" where
  "strip s = rev (dropWhile is_space (rev (dropWhile is_space s)))"

definition is_digit :: "char \<Rightarrow> bool" where
  "is_digit c = (c \<in> set ''0123456789'')"

definition digit_val :: "char \<Rightarrow> int" where
  "digit_val c = of_char c - 48"

definition lower :: "char \<Rightarrow> char" where
  "lower c = (case map_of (zip ''ABCDEFGHIJKLMNOPQRSTUVWXYZ'' ''abcdefghijklmnopqrstuvwxyz'') c of
                Some d \<Rightarrow> d | None \<Rightarrow> c)"

fun digitpart_ok :: "string \<Rightarrow> bool" where
  "digitpart_ok [] = False"
| "digitpart_ok [c] = is_digit c"
| "digitpart_ok (c # d # cs) =
     (is_digit c \<and> (if d = CHR ''_'' then digitpart_ok cs else digitpart_ok (d # cs)))"

definition digit_or_us :: "char \<Rightarrow> bool" where
  "digit_or_us c = (is_digit c \<or> c = CHR ''_'')"

definition int_of_digits :: "string \<Rightarrow> int" where
  "int_of_digits ds = foldl (\<lambda>a c. 10 * a + digit_val c) 0 (filter is_digit ds)"

definition split_sign :: "string \<Rightarrow> bool \<times> string" where
  "split_sign s = (case s of
       c # t \<Rightarrow> (if c = CHR ''-'' then (True, t) else if c = CHR ''+'' then (False, t) else (False, s))
     | [] \<Rightarrow> (False, s))"

definition parse_exponent :: "string \<Rightarrow> int option" where
  "parse_exponent r = (case r of
       [] \<Rightarrow> Some 0
     | c # t \<Rightarrow>
         (if c = CHR ''e'' \<or> c = CHR ''E'' then
            (let (neg, ds) = split_sign t in
             if digitpart_ok ds
             then Some (if neg then - int_of_digits ds else int_of_digits ds)
             else None)
          else None))"

text \<open>A float number is read as a significand and a power of ten.\<close>

definition parse_floatnumber :: "string \<Rightarrow> (int \<times> int) option" where
  "parse_floatnumber s =
     (let ip = takeWhile digit_or_us s; r1 = dropWhile digit_or_us s;
          has_dot = (r1 \<noteq> [] \<and> hd r1 = CHR ''.'');
          fp = (if has_dot then takeWhile digit_or_us (tl r1) else []);
          r2 = (if has_dot then dropWhile digit_or_us (tl r1) else r1);
          number_ok = (if ip = [] then has_dot \<and> digitpart_ok fp
                       else digitpart_ok ip \<and> (fp = [] \<or> digitpart_ok fp))
      in if number_ok then
           (case parse_exponent r2 of
              None \<Rightarrow> None
            | Some e \<Rightarrow> Some (int_of_digits (ip @ fp), e - int (length (filter is_digit fp))))
         else None)"

definition decimal_to_float :: "int \<Rightarrow> int \<Rightarrow> pyfloat" where
  "decimal_to_float m e =
     (if 0 \<le> e then binary64_round (m * 10 ^ nat e) 1 else binary64_round m (10 ^ nat (- e)))"

definition float_of_string :: "string \<Rightarrow> pyfloat option" where
  "float_of_string s =
     (case transform_decimal_and_space s of
        None \<Rightarrow> None
      | Some t \<Rightarrow>
          (let (neg, body) = split_sign (strip t); word = map lower body in
           if word = ''inf'' \<or> word = ''infinity'' then Some (if neg then NegInf else PosInf)
           else if word = ''nan'' then Some NaN
           else (case parse_floatnumber body of
                   None \<Rightarrow> None
                 | Some (m, e) \<Rightarrow>
                     Some (if neg then float_neg (decimal_to_float m e) else decimal_to_float m e))))"

text \<open>A float literal of the source is the float its text converts to.\<close>

definition float_literal :: "string \<Rightarrow> pyfloat" where
  "float_literal s = (case float_of_string s of Some x \<Rightarrow> x | None \<Rightarrow> NaN)"

text \<open>
  \<^verbatim>\<open>float(n)\<close> on an int keeps the 53 leading bits, rounded half to even, and raises
  OverflowError when the result would not be finite, that is from \<open>2 ^ 1024 - 2 ^ 970\<close> on.
\<close>

definition float_of_pyint :: "int \<Rightarrow> pyexc + pyfloat" where
  "float_of_pyint n =
     (if 2 ^ 1024 - 2 ^ 970 \<le> \<bar>n\<bar> then Inl OverflowError
      else (let k = nat (bit_length \<bar>n\<bar> - 53); m = round_half_even \<bar>n\<bar> (2 ^ k)
            in Inr (Num (real_of_int (sgn n * (m * 2 ^ k))))))"

text \<open>
  \<^verbatim>\<open>float(x)\<close>: a float is returned as it is, an int or bool is converted, a string
  is parsed, and any other object raises TypeError.
\<close>

definition py_float :: "pyval \<Rightarrow> pyexc + pyfloat" where
  "py_float v = (case v of
       PyFloat x \<Rightarrow> Inr x
     | PyInt n \<Rightarrow> float_of_pyint n
     | PyBool b \<Rightarrow> Inr (Num (if b then 1 else 0))
     | PyStr s \<Rightarrow> (case float_of_string s of None \<Rightarrow> Inl ValueError | Some x \<Rightarrow> Inr x)
     | PyNone \<Rightarrow> Inl TypeError)"

section \<open>Risk classifier\<close>

text \<open>
  \<^verbatim>\<open>compute_risk_level(score)\<close>: the conversion is tried first and every exception
  it raises is answered with \<^verbatim>\<open>"LOW"\<close>.
\<close>

definition compute_risk_level :: "pyval \<Rightarrow> string" where
  "compute_risk_level score =
     (case py_float score of
        Inl e \<Rightarrow> ''LOW''
      | Inr x \<Rightarrow>
          if float_ge x (float_literal ''0.70'') then ''HIGH''
          else if float_ge x (float_literal ''0.45'') then ''MEDIUM''
          else ''LOW'')"

section \<open>Knowledge lookup\<close>

definition MITRE_MAP :: "(string \<times> (string \<times> string)) list" where
  "MITRE_MAP =
     [(''PRIV_ESC'', (''Privilege Escalation'', ''T1068'')),
      (''BRUTE_FORCE'', (''Credential Access'', ''T1110'')),
      (''LATERAL_MOVE'', (''Lateral Movement'', ''T1021'')),
      (''DATA_EXFIL'', (''Exfiltration'', ''T1041'')),
      (''MALWARE_EXEC'', (''Execution'', ''T1059'')),
      (''PORT_SCAN'', (''Discovery'', ''T1046'')),
      (''AUTH_FAILURE'', (''Credential Access'', ''T1110''))]"

text \<open>
  \<^verbatim>\<open>MITRE_MAP.get(key, ("Unknown", "N/A"))\<close> as \<^verbatim>\<open>on_select\<close> calls it;
  the key is a cell, and a cell that is not a string equals no key of the dictionary.
\<close>

definition mitre_lookup :: "pyval \<Rightarrow> string \<times> string" where
  "mitre_lookup key =
     (case key of
        PyStr code \<Rightarrow> (case map_of MITRE_MAP code of Some v \<Rightarrow> v | None \<Rightarrow> (''Unknown'', ''N/A''))
      | _ \<Rightarrow> (''Unknown'', ''N/A''))"

text \<open>
  \<^verbatim>\<open>score >= c\<close> for a float \<^verbatim>\<open>c\<close>: Python compares a float, an int or a bool
  with a float by value, and raises TypeError for a string or \<^verbatim>\<open>None\<close>.
\<close>

definition py_ge :: "pyval \<Rightarrow> pyfloat \<Rightarrow> pyexc + bool" where
  "py_ge v c = (case v of
       PyFloat x \<Rightarrow> Inr (float_ge x c)
     | PyInt n \<Rightarrow> Inr (float_ge (Num (real_of_int n)) c)
     | PyBool b \<Rightarrow> Inr (float_ge (Num (if b then 1 else 0)) c)
     | PyStr s \<Rightarrow> Inl TypeError
     | PyNone \<Rightarrow> Inl TypeError)"

text \<open>\<^verbatim>\<open>ml_explanation(score)\<close> compares the score as it is, without conversion.\<close>

definition ml_explanation :: "pyval \<Rightarrow> pyexc + string list" where
  "ml_explanation score =
     (case py_ge score (float_literal ''0.75'') of
        Inl e \<Rightarrow> Inl e
      | Inr True \<Rightarrow>
          Inr [''Strong privilege escalation signal'',
               ''Off-hours administrative activity'',
               ''Multiple failed authentication attempts'']
      | Inr False \<Rightarrow>
          (case py_ge score (float_literal ''0.45'') of
             Inl e \<Rightarrow> Inl e
           | Inr True \<Rightarrow>
               Inr [''Suspicious behavior detected'',
                    ''Moderate anomaly score'']
           | Inr False \<Rightarrow>
               Inr [''Low-confidence anomaly'',
                    ''Likely benign activity'']))"

section \<open>The table of alerts\<close>

text \<open>
  A pandas DataFrame as \<^verbatim>\<open>read_csv\<close> hands it over: the column labels in order,
  the index labels, and the rows, each row keyed by column label (what
  \<^verbatim>\<open>iterrows\<close> and \<^verbatim>\<open>iloc\<close> yield). A row holds NaN where it has no value.
\<close>

record dataframe =
  df_columns :: "string list"
  df_index :: "nat list"
  df_rows :: "(string \<rightharpoonup> pyval) list"

definition cell :: "(string \<rightharpoonup> pyval) \<Rightarrow> string \<Rightarrow> pyval" where
  "cell r c = (case r c of Some v \<Rightarrow> v | None \<Rightarrow> PyFloat NaN)"

text \<open>\<^verbatim>\<open>df[c]\<close>: the cells of a column, KeyError when there is no such column.\<close>

definition get_column :: "string \<Rightarrow> dataframe \<Rightarrow> pyexc + pyval list" where
  "get_column c df =
     (if c \<in> set (df_columns df) then Inr (map (\<lambda>r. cell r c) (df_rows df)) else Inl (KeyError c))"

text \<open>\<^verbatim>\<open>df[c] = values\<close>: an existing column is overwritten, a new one is appended.\<close>

definition set_column :: "string \<Rightarrow> pyval list \<Rightarrow> dataframe \<Rightarrow> dataframe" where
  "set_column c vals df =
     df\<lparr>df_columns := (if c \<in> set (df_columns df) then df_columns df else df_columns df @ [c]),
        df_rows := map (\<lambda>(r, v). r(c \<mapsto> v)) (zip (df_rows df) vals)\<rparr>"

text \<open>
  \<^verbatim>\<open>df.rename(columns={old: new}, inplace=True)\<close>: the label changes and the cells
  stay with it. The script renames the first alias present to \<^verbatim>\<open>risk_score\<close>, the
  first alias of the list, so the new label is either the old one or not yet a column.
\<close>

definition rename_column :: "string \<Rightarrow> string \<Rightarrow> dataframe \<Rightarrow> dataframe" where
  "rename_column old new df =
     (if old = new then df
      else df\<lparr>df_columns := map (\<lambda>c. if c = old then new else c) (df_columns df),
              df_rows := map (\<lambda>r. (r(old := None))(new := r old)) (df_rows df)\<rparr>)"

text \<open>\<^verbatim>\<open>series.astype(float)\<close> converts cell by cell and raises at the first failure.\<close>

fun astype_float :: "pyval list \<Rightarrow> pyexc + pyval list" where
  "astype_float [] = Inr []"
| "astype_float (v # vs) =
     (case py_float v of
        Inl e \<Rightarrow> Inl e
      | Inr x \<Rightarrow> (case astype_float vs of Inl e \<Rightarrow> Inl e | Inr xs \<Rightarrow> Inr (PyFloat x # xs)))"

section \<open>Start-up: dialogs and termination\<close>

text \<open>
  A run of the module-level code yields the error dialogs shown so far (title and
  message) and either an abnormal end (\<^verbatim>\<open>sys.exit\<close> with a status, or an exception
  nobody handles) or a value.
\<close>

datatype abort = SysExit int | Unhandled pyexc

type_synonym dialog = "string \<times> string"

type_synonym 'a run = "dialog list \<times> (abort + 'a)"

definition bind_run :: "'a run \<Rightarrow> ('a \<Rightarrow> 'b run) \<Rightarrow> 'b run" where
  "bind_run m f = (case m of
       (ds, Inl a) \<Rightarrow> (ds, Inl a)
     | (ds, Inr x) \<Rightarrow> (case f x of (ds', r) \<Rightarrow> (ds @ ds', r)))"

definition NL :: string where
  "NL = [CHR 0x0A]"

fun str_join :: "string \<Rightarrow> string list \<Rightarrow> string" where
  "str_join sep [] = []"
| "str_join sep [x] = x"
| "str_join sep (x # y # ys) = x @ sep @ str_join sep (y # ys)"

subsection \<open>Column normalization\<close>

definition RISK_ALIASES :: "string list" where
  "RISK_ALIASES = [''risk_score'', ''risk'', ''score'', ''anomaly_score'', ''severity_score'']"

text \<open>The loop over the aliases, left at the first one that is a column.\<close>

fun found_risk_col :: "string list \<Rightarrow> string list \<Rightarrow> string option" where
  "found_risk_col [] cols = None"
| "found_risk_col (col # rest) cols = (if col \<in> set cols then Some col else found_risk_col rest cols)"

text \<open>\<^verbatim>\<open>not found_risk_col\<close> holds for \<^verbatim>\<open>None\<close> and for the empty string.\<close>

definition column_normalization :: "dataframe \<Rightarrow> dataframe run" where
  "column_normalization df =
     (case found_risk_col RISK_ALIASES (df_columns df) of
        None \<Rightarrow>
          ([(''CSV Error'',
             ''No risk score column found.'' @ NL @ NL @ ''Expected one of:'' @ NL
               @ str_join '', '' RISK_ALIASES)],
           Inl (SysExit 1))
      | Some c \<Rightarrow>
          if c = [] then
            ([(''CSV Error'',
               ''No risk score column found.'' @ NL @ NL @ ''Expected one of:'' @ NL
                 @ str_join '', '' RISK_ALIASES)],
             Inl (SysExit 1))
          else ([], Inr (rename_column c ''risk_score'' df)))"

subsection \<open>Required columns\<close>

definition required_cols :: "string list" where
  "required_cols = [''alert_type'', ''user'', ''destination_host'', ''risk_score'']"

definition missing :: "dataframe \<Rightarrow> string list" where
  "missing df = filter (\<lambda>c. c \<notin> set (df_columns df)) required_cols"

definition validate_required :: "dataframe \<Rightarrow> dataframe run" where
  "validate_required df =
     (if missing df \<noteq> [] then
        ([(''CSV Error'', ''Missing required columns:'' @ NL @ str_join '', '' (missing df))],
         Inl (SysExit 1))
      else ([], Inr df))"

subsection \<open>Risk level\<close>

text \<open>
  \<^verbatim>\<open>df["risk_score"] = df["risk_score"].astype(float)\<close>, then
  \<^verbatim>\<open>df["risk_level"] = df["risk_score"].apply(compute_risk_level)\<close>, then
  \<^verbatim>\<open>df["status"] = "NEW"\<close>. No exception is handled here.
\<close>

definition raise_or :: "pyexc + 'a \<Rightarrow> ('a \<Rightarrow> 'b run) \<Rightarrow> 'b run" where
  "raise_or m f = (case m of Inl e \<Rightarrow> ([], Inl (Unhandled e)) | Inr x \<Rightarrow> f x)"

definition risk_level_stage :: "dataframe \<Rightarrow> dataframe run" where
  "risk_level_stage df =
     raise_or (get_column ''risk_score'' df) (\<lambda>col.
     raise_or (astype_float col) (\<lambda>floats.
     let df1 = set_column ''risk_score'' floats df in
     raise_or (get_column ''risk_score'' df1) (\<lambda>scores.
     let df2 = set_column ''risk_level'' (map (\<lambda>s. PyStr (compute_risk_level s)) scores) df1;
         df3 = set_column ''status'' (replicate (length (df_rows df2)) (PyStr ''NEW'')) df2
     in ([], Inr df3))))"

definition load_pipeline :: "dataframe \<Rightarrow> dataframe run" where
  "load_pipeline df =
     bind_run (column_normalization df) (\<lambda>d1.
     bind_run (validate_required d1) risk_level_stage)"

section \<open>Locating the input file\<close>

text \<open>
  What the script reads from its surroundings: \<^verbatim>\<open>sys._MEIPASS\<close> when the attribute
  exists, \<^verbatim>\<open>sys.frozen\<close>, the directory of \<^verbatim>\<open>sys.executable\<close>, the directory
  of the script file, the working directory, \<^verbatim>\<open>os.path.join\<close>,
  \<^verbatim>\<open>os.path.exists\<close>, and \<^verbatim>\<open>pandas.read_csv\<close> on a path.
\<close>

record env =
  meipass :: "string option"
  frozen :: bool
  executable_dir :: string
  script_dir :: string
  cwd :: string
  path_join :: "string \<Rightarrow> string \<Rightarrow> string"
  path_exists :: "string \<Rightarrow> bool"
  read_csv :: "string \<Rightarrow> pyexc + dataframe"

definition get_csv_path :: "env \<Rightarrow> string \<Rightarrow> pyexc + string" where
  "get_csv_path e filename =
     (case (case meipass e of
              None \<Rightarrow> None
            | Some d \<Rightarrow> (let mei = path_join e d filename in
                         if path_exists e mei then Some mei else None)) of
        Some mei \<Rightarrow> Inr mei
      | None \<Rightarrow>
          (let base_dir = (if frozen e then executable_dir e else script_dir e);
               exe_path = path_join e base_dir filename
           in if path_exists e exe_path then Inr exe_path
              else (let cwd_path = path_join e (cwd e) filename
                    in if path_exists e cwd_path then Inr cwd_path
                       else Inl (FileNotFoundError (filename @ '' not found'')))))"

definition read_named :: "env \<Rightarrow> string \<Rightarrow> pyexc + dataframe" where
  "read_named e filename =
     (case get_csv_path e filename of Inl x \<Rightarrow> Inl x | Inr p \<Rightarrow> read_csv e p)"

text \<open>
  The \<^verbatim>\<open>try\<close> around the first read catches FileNotFoundError only, whether
  \<^verbatim>\<open>get_csv_path\<close> or \<^verbatim>\<open>read_csv\<close> raised it; the second read is unguarded.
\<close>

definition load_data :: "env \<Rightarrow> dataframe run" where
  "load_data e =
     (case read_named e ''siem_alerts.csv'' of
        Inr df \<Rightarrow> ([], Inr df)
      | Inl x \<Rightarrow>
          (case x of
             FileNotFoundError m \<Rightarrow> raise_or (read_named e ''siem_features.csv'') (\<lambda>df. ([], Inr df))
           | _ \<Rightarrow> ([], Inl (Unhandled x))))"

definition startup :: "env \<Rightarrow> dataframe run" where
  "startup e = bind_run (load_data e) load_pipeline"

text \<open>
  The search order in the words of the specification: the bundled resource directory
  (when there is one), the directory of the program, the working directory.
\<close>

definition search_order :: "env \<Rightarrow> string \<Rightarrow> string list" where
  "search_order e filename =
     (case meipass e of Some d \<Rightarrow> [path_join e d filename] | None \<Rightarrow> [])
     @ [path_join e (if frozen e then executable_dir e else script_dir e) filename,
        path_join e (cwd e) filename]"

section \<open>The displayed view\<close>

text \<open>
  \<^verbatim>\<open>df.sample(frac=1)\<close> takes the rows, each with its index label, at the positions
  \<^verbatim>\<open>permutation(n)\<close> of the random generator: the positions \<open>0..n-1\<close>, shuffled
  by exchanging, for \<open>i\<close> from \<open>n-1\<close> down to \<open>1\<close>, the entry at \<open>i\<close> with the
  entry at a position drawn from \<open>0..i\<close>. The draws are an argument here: \<open>rnd i\<close>
  is the number the generator yields at step \<open>i\<close>, reduced into the range.
  \<^verbatim>\<open>reset_index(drop=True)\<close> relabels the rows by position.
\<close>

fun shuffle_steps :: "nat \<Rightarrow> (nat \<Rightarrow> nat) \<Rightarrow> 'a list \<Rightarrow> 'a list" where
  "shuffle_steps 0 rnd xs = xs"
| "shuffle_steps (Suc i) rnd xs =
     (let j = rnd (Suc i) mod (Suc (Suc i))
      in shuffle_steps i rnd (xs[Suc i := xs ! j, j := xs ! Suc i]))"

definition permutation :: "(nat \<Rightarrow> nat) \<Rightarrow> nat \<Rightarrow> nat list" where
  "permutation rnd n = shuffle_steps (n - 1) rnd [0..<n]"

definition take_rows :: "nat list \<Rightarrow> dataframe \<Rightarrow> dataframe" where
  "take_rows locs df =
     df\<lparr>df_index := map (\<lambda>i. df_index df ! i) locs, df_rows := map (\<lambda>i. df_rows df ! i) locs\<rparr>"

definition sample_all :: "(nat \<Rightarrow> nat) \<Rightarrow> dataframe \<Rightarrow> dataframe" where
  "sample_all rnd df = take_rows (permutation rnd (length (df_rows df))) df"

definition reset_index :: "dataframe \<Rightarrow> dataframe" where
  "reset_index df = df\<lparr>df_index := [0..<length (df_rows df)]\<rparr>"

definition df_view :: "(nat \<Rightarrow> nat) \<Rightarrow> dataframe \<Rightarrow> dataframe" where
  "df_view rnd df = reset_index (sample_all rnd df)"

text \<open>\<^verbatim>\<open>df[mask]\<close> keeps the rows where the mask holds, with their index labels.\<close>

definition boolean_mask :: "((string \<rightharpoonup> pyval) \<Rightarrow> bool) \<Rightarrow> dataframe \<Rightarrow> dataframe" where
  "boolean_mask p df =
     df\<lparr>df_index := map fst (filter (\<lambda>(i, r). p r) (zip (df_index df) (df_rows df))),
        df_rows := map snd (filter (\<lambda>(i, r). p r) (zip (df_index df) (df_rows df)))\<rparr>"

definition iterrows :: "dataframe \<Rightarrow> (nat \<times> (string \<rightharpoonup> pyval)) list" where
  "iterrows df = zip (df_index df) (df_rows df)"

text \<open>
  \<^verbatim>\<open>populate_table\<close> empties the tree and inserts one item per row of the selected
  data, under the row's index label as item id; the result is the list of items, each
  with the row its displayed values are taken from.
\<close>

definition populate_table :: "string \<Rightarrow> dataframe \<Rightarrow> (nat \<times> (string \<rightharpoonup> pyval)) list" where
  "populate_table sev view =
     (let data = (if sev = ''ALL'' then view
                  else boolean_mask (\<lambda>r. cell r ''risk_level'' = PyStr sev) view)
      in iterrows data)"

text \<open>
  \<^verbatim>\<open>df.iloc[i]\<close> reads a row by position. \<^verbatim>\<open>row[c]\<close> reads the cell of a
  row under a column label, NaN where the row has no value, and raises KeyError when
  the table has no such column.
\<close>

definition iloc :: "dataframe \<Rightarrow> nat \<Rightarrow> pyexc + (string \<rightharpoonup> pyval)" where
  "iloc df i = (if i < length (df_rows df) then Inr (df_rows df ! i) else Inl IndexError)"

definition row_get :: "string list \<Rightarrow> (string \<rightharpoonup> pyval) \<Rightarrow> string \<Rightarrow> pyexc + pyval" where
  "row_get cols r c = (if c \<in> set cols then Inr (cell r c) else Inl (KeyError c))"

definition bind_exc :: "pyexc + 'a \<Rightarrow> ('a \<Rightarrow> pyexc + 'b) \<Rightarrow> pyexc + 'b" where
  "bind_exc m f = (case m of Inl e \<Rightarrow> Inl e | Inr x \<Rightarrow> f x)"

text \<open>
  \<^verbatim>\<open>on_select\<close>: nothing happens on an empty selection; otherwise the row at the
  position given by the first selected item id is read, with its tactic, technique and
  explanation. The result is what the panel text is composed from.
\<close>

definition on_select ::
  "dataframe \<Rightarrow> nat list \<Rightarrow> (pyexc + (string \<rightharpoonup> pyval) \<times> (string \<times> string) \<times> string list) option" where
  "on_select view sel =
     (case sel of
        [] \<Rightarrow> None
      | i # _ \<Rightarrow> Some (
          bind_exc (iloc view i) (\<lambda>row.
          bind_exc (row_get (df_columns view) row ''alert_type'') (\<lambda>alert_type.
          bind_exc (row_get (df_columns view) row ''risk_score'') (\<lambda>score.
          bind_exc (ml_explanation score) (\<lambda>expl.
          Inr (row, mitre_lookup alert_type, expl)))))))"

section \<open>Example inputs\<close>

text \<open>
  Tables as \<^verbatim>\<open>read_csv\<close> delivers them: one that names its score column
  \<^verbatim>\<open>risk\<close> and has a missing score, one with a score that is not a number, one
  without any alias of the score column, and one without the user and host columns.
\<close>

definition example_table :: dataframe where
  "example_table =
     \<lparr>df_columns = [''alert_type'', ''score'', ''user'', ''risk'', ''destination_host''],
      df_index = [0, 1],
      df_rows =
        [[''alert_type'' \<mapsto> PyStr ''PRIV_ESC'', ''score'' \<mapsto> PyFloat (Num 0.1),
          ''user'' \<mapsto> PyStr ''bob'', ''risk'' \<mapsto> PyFloat (Num 0.72),
          ''destination_host'' \<mapsto> PyStr ''srv1''],
         [''alert_type'' \<mapsto> PyStr ''PORT_SCAN'', ''score'' \<mapsto> PyFloat (Num 0.9),
          ''user'' \<mapsto> PyStr ''eve'', ''risk'' \<mapsto> PyFloat NaN,
          ''destination_host'' \<mapsto> PyStr ''srv2'']]\<rparr>"

definition malformed_table :: dataframe where
  "malformed_table =
     \<lparr>df_columns = [''alert_type'', ''user'', ''destination_host'', ''risk_score''],
      df_index = [0],
      df_rows =
        [[''alert_type'' \<mapsto> PyStr ''PORT_SCAN'', ''user'' \<mapsto> PyStr ''eve'',
          ''destination_host'' \<mapsto> PyStr ''srv2'', ''risk_score'' \<mapsto> PyStr ''abc'']]\<rparr>"

definition no_alias_table :: dataframe where
  "no_alias_table =
     \<lparr>df_columns = [''alert_type'', ''user'', ''destination_host'', ''priority''],
      df_index = [0],
      df_rows =
        [[''alert_type'' \<mapsto> PyStr ''PORT_SCAN'', ''user'' \<mapsto> PyStr ''eve'',
          ''destination_host'' \<mapsto> PyStr ''srv2'', ''priority'' \<mapsto> PyFloat (Num 0.5)]]\<rparr>"

definition no_user_table :: dataframe where
  "no_user_table =
     \<lparr>df_columns = [''alert_type'', ''anomaly_score''],
      df_index = [0],
      df_rows = [[''alert_type'' \<mapsto> PyStr ''PORT_SCAN'', ''anomaly_score'' \<mapsto> PyFloat (Num 0.5)]]\<rparr>"

text \<open>
  A frozen build on a POSIX system whose file system holds exactly the given paths.
\<close>

definition posix_join :: "string \<Rightarrow> string \<Rightarrow> string" where
  "posix_join a b = (if a = [] \<or> last a = CHR ''/'' then a @ b else a @ ''/'' @ b)"

definition example_env :: "string list \<Rightarrow> env" where
  "example_env files =
     \<lparr>meipass = Some ''/tmp/_MEI01'', frozen = True, executable_dir = ''/opt/app'',
      script_dir = ''/tmp/_MEI01'', cwd = ''/home/soc'', path_join = posix_join,
      path_exists = (\<lambda>p. p \<in> set files),
      read_csv = (\<lambda>p. if p \<in> set files then Inr example_table else Inl (FileNotFoundError p))\<rparr>"

section \<open>Properties of the classifier\<close>

text \<open>The three float literals of the script, as binary64 values.\<close>

lemma literal_070: "float_literal ''0.70'' = Num (3152519739159347 / 4503599627370496)"
  by code_simp

lemma literal_045: "float_literal ''0.45'' = Num (8106479329266893 / 18014398509481984)"
  by code_simp

lemma literal_075: "float_literal ''0.75'' = Num (3 / 4)"
  by code_simp

lemma compute_risk_level_cases:
  "compute_risk_level s = ''HIGH'' \<or> compute_risk_level s = ''MEDIUM'' \<or> compute_risk_level s = ''LOW''"
  by (simp add: compute_risk_level_def split: sum.split)

lemma label_HIGH_rejected: "py_float (PyStr ''HIGH'') = Inl ValueError"
  by code_simp

lemma label_MEDIUM_rejected: "py_float (PyStr ''MEDIUM'') = Inl ValueError"
  by code_simp

lemma label_LOW_rejected: "py_float (PyStr ''LOW'') = Inl ValueError"
  by code_simp

text \<open>Strings at the thresholds, with Unicode white space and digits, and ill-formed ones.\<close>

lemma float_of_string_below_070:
  "float_of_string ''0.69999999999999999'' = Some (Num (3152519739159347 / 4503599627370496))"
  by code_simp

lemma float_of_string_below_045:
  "float_of_string ''0.44999999999999999'' = Some (Num (8106479329266893 / 18014398509481984))"
  by code_simp

lemma float_of_string_unicode:
  "float_of_string [CHR 0xC2, CHR 0xA0, CHR ''0'', CHR ''.'', CHR 0xEF, CHR 0xBC, CHR 0x99]
     = Some (Num (8106479329266893 / 9007199254740992))"
  by code_simp

lemma float_of_string_forms:
  "float_of_string ''+iNfInItY'' = Some PosInf \<and> float_of_string ''-NaN'' = Some NaN
   \<and> float_of_string ''1__0'' = None \<and> float_of_string ''1e'' = None
   \<and> float_of_string ''.'' = None \<and> float_of_string [CHR 0x1C, CHR ''1''] = None
   \<and> float_of_string [CHR ''1'', CHR 0xC2, CHR 0xA0, CHR ''2''] = None
   \<and> float_of_string [] = None \<and> float_of_string '' '' = None"
  by code_simp

text \<open>An int in range converts to a float on the same side of 1.\<close>

lemma bit_length_nonneg: "0 \<le> bit_length n"
  by (induction n rule: bit_length.induct) (subst bit_length.simps, simp)

lemma bit_length_lower: "0 < a \<Longrightarrow> 2 ^ nat (bit_length a - 1) \<le> a"
proof (induction a rule: bit_length.induct)
  case (1 n)
  show ?case
  proof (cases "n div 2 = 0")
    case True
    then have "bit_length (n div 2) = 0" by (simp add: bit_length.simps)
    then have "bit_length n = 1" using "1.prems" by (subst bit_length.simps) simp
    then show ?thesis using "1.prems" by simp
  next
    case False
    then have pos: "0 < n div 2" using "1.prems" by (simp add: pos_imp_zdiv_pos_iff)
    have ih: "2 ^ nat (bit_length (n div 2) - 1) \<le> n div 2"
      using "1.IH" "1.prems" pos by simp
    have bl: "bit_length n = 1 + bit_length (n div 2)"
      using "1.prems" by (subst bit_length.simps) simp
    have "1 \<le> bit_length (n div 2)"
      using pos bit_length_nonneg [of "n div 2 div 2"] by (subst bit_length.simps) simp
    then have "nat (bit_length n - 1) = Suc (nat (bit_length (n div 2) - 1))"
      using bl by simp
    then have "(2::int) ^ nat (bit_length n - 1) = 2 * 2 ^ nat (bit_length (n div 2) - 1)"
      by simp
    also have "\<dots> \<le> 2 * (n div 2)" using ih by simp
    also have "\<dots> \<le> n" by simp
    finally show ?thesis .
  qed
qed

lemma round_half_even_lower:
  assumes "0 < q" "m * q \<le> p"
  shows "m \<le> round_half_even p q"
proof -
  have "m = (m * q) div q" using assms(1) by simp
  also have "\<dots> \<le> p div q" using assms by (intro zdiv_mono1) simp_all
  finally have "m \<le> p div q" .
  then show ?thesis by (simp add: round_half_even_def Let_def)
qed

lemma pyint_value_ge_1:
  assumes "1 \<le> a"
  shows "1 \<le> round_half_even a (2 ^ nat (bit_length a - 53)) * 2 ^ nat (bit_length a - 53)"
proof -
  let ?k = "nat (bit_length a - 53)"
  have "(2::int) ^ ?k \<le> 2 ^ nat (bit_length a - 1)"
    by (intro power_increasing) simp_all
  also have "\<dots> \<le> a" using assms by (intro bit_length_lower) simp
  finally have "1 * 2 ^ ?k \<le> a" by simp
  then have "1 \<le> round_half_even a (2 ^ ?k)"
    by (intro round_half_even_lower) simp_all
  moreover have "(1::int) \<le> 2 ^ ?k" by simp
  ultimately show ?thesis
    using mult_mono [of 1 "round_half_even a (2 ^ ?k)" 1 "2 ^ ?k"] by simp
qed

lemma float_of_pyint_pos:
  assumes "1 \<le> n" "\<not> 2 ^ 1024 - 2 ^ 970 \<le> \<bar>n\<bar>"
  shows "\<exists>v. float_of_pyint n = Inr (Num v) \<and> 1 \<le> v"
proof -
  have a: "\<bar>n\<bar> = n" "sgn n = 1" using assms(1) by simp_all
  have "1 \<le> round_half_even n (2 ^ nat (bit_length n - 53)) * 2 ^ nat (bit_length n - 53)"
    using assms(1) by (rule pyint_value_ge_1)
  then have "(1::real) \<le> real_of_int (round_half_even n (2 ^ nat (bit_length n - 53)) * 2 ^ nat (bit_length n - 53))"
    by linarith
  then show ?thesis
    using assms(2) by (simp add: float_of_pyint_def Let_def a)
qed

lemma round_half_even_nonneg: "0 \<le> p \<Longrightarrow> 0 < q \<Longrightarrow> 0 \<le> round_half_even p q"
  by (simp add: round_half_even_def Let_def pos_imp_zdiv_nonneg_iff)

lemma float_of_pyint_nonpos:
  assumes "n \<le> 0" "\<not> 2 ^ 1024 - 2 ^ 970 \<le> \<bar>n\<bar>"
  shows "\<exists>v. float_of_pyint n = Inr (Num v) \<and> v \<le> 0"
proof -
  let ?k = "nat (bit_length \<bar>n\<bar> - 53)"
  have "0 \<le> round_half_even \<bar>n\<bar> (2 ^ ?k) * 2 ^ ?k"
    by (simp add: round_half_even_nonneg)
  moreover have "sgn n \<le> 0" using assms(1) by (simp add: sgn_if)
  ultimately have "sgn n * (round_half_even \<bar>n\<bar> (2 ^ ?k) * 2 ^ ?k) \<le> 0"
    by (simp add: mult_le_0_iff)
  then have "real_of_int (sgn n * (round_half_even \<bar>n\<bar> (2 ^ ?k) * 2 ^ ?k)) \<le> 0"
    by linarith
  then show ?thesis
    using assms(2) by (simp add: float_of_pyint_def Let_def)
qed

lemma compute_risk_level_float:
  "compute_risk_level (PyFloat x) =
     (if float_ge x (Num (3152519739159347 / 4503599627370496)) then ''HIGH''
      else if float_ge x (Num (8106479329266893 / 18014398509481984)) then ''MEDIUM''
      else ''LOW'')"
  by (simp add: compute_risk_level_def py_float_def literal_070 literal_045)

lemma compute_risk_level_int:
  "compute_risk_level (PyInt n) =
     (if 2 ^ 1024 - 2 ^ 970 \<le> \<bar>n\<bar> then ''LOW'' else if 1 \<le> n then ''HIGH'' else ''LOW'')"
proof (cases "2 ^ 1024 - 2 ^ 970 \<le> \<bar>n\<bar>")
  case True
  then show ?thesis by (simp add: compute_risk_level_def py_float_def float_of_pyint_def)
next
  case out: False
  show ?thesis
  proof (cases "1 \<le> n")
    case True
    from float_of_pyint_pos [OF True out] obtain v
      where "float_of_pyint n = Inr (Num v)" "1 \<le> v" by blast
    then show ?thesis
      using True out by (simp add: compute_risk_level_def py_float_def literal_070)
  next
    case False
    then have "n \<le> 0" by simp
    from float_of_pyint_nonpos [OF this out] obtain v
      where "float_of_pyint n = Inr (Num v)" "v \<le> 0" by blast
    then show ?thesis
      using False out by (simp add: compute_risk_level_def py_float_def literal_070 literal_045)
  qed
qed

text \<open>Beyond 53 bits an int is rounded half to even.\<close>

lemma float_of_pyint_rounds:
  "float_of_pyint (2 ^ 53 + 1) = Inr (Num (2 ^ 53)) \<and>
   float_of_pyint (2 ^ 53 + 3) = Inr (Num (2 ^ 53 + 4)) \<and>
   float_of_pyint (- 5) = Inr (Num (- 5)) \<and>
   float_of_pyint (2 ^ 1024 - 2 ^ 970) = Inl OverflowError"
  by code_simp

text \<open>
  C1, as the code has it. A float score (infinities included) is HIGH iff it is at least
  0.70, MEDIUM iff it is at least 0.45 and below 0.70, and LOW iff it is below 0.45 or
  NaN, the bounds being the binary64 values of the two literals. A bool or an int is
  classified by its value, except that an int from \<open>2 ^ 1024 - 2 ^ 970\<close> on in
  magnitude, which \<^verbatim>\<open>float()\<close> refuses with OverflowError, is LOW. \<^verbatim>\<open>None\<close>
  is LOW. A string is LOW when \<^verbatim>\<open>float()\<close> rejects it and is otherwise classified
  as the float it converts to.
\<close>

theorem compute_risk_level_by_kind:
  "float_literal ''0.70'' = Num (3152519739159347 / 4503599627370496) \<and>
   float_literal ''0.45'' = Num (8106479329266893 / 18014398509481984) \<and>
   (compute_risk_level (PyFloat x) = ''HIGH'' \<longleftrightarrow> float_ge x (float_literal ''0.70'')) \<and>
   (compute_risk_level (PyFloat x) = ''MEDIUM'' \<longleftrightarrow>
      float_ge x (float_literal ''0.45'') \<and> float_lt x (float_literal ''0.70'')) \<and>
   (compute_risk_level (PyFloat x) = ''LOW'' \<longleftrightarrow> float_lt x (float_literal ''0.45'') \<or> x = NaN) \<and>
   compute_risk_level (PyInt n) =
     (if 2 ^ 1024 - 2 ^ 970 \<le> \<bar>n\<bar> then ''LOW'' else if 1 \<le> n then ''HIGH'' else ''LOW'') \<and>
   compute_risk_level (PyBool b) = (if b then ''HIGH'' else ''LOW'') \<and>
   compute_risk_level PyNone = ''LOW'' \<and>
   compute_risk_level (PyStr s) =
     (case float_of_string s of None \<Rightarrow> ''LOW'' | Some y \<Rightarrow> compute_risk_level (PyFloat y))"
proof -
  have f: "(compute_risk_level (PyFloat x) = ''HIGH'' \<longleftrightarrow> float_ge x (float_literal ''0.70'')) \<and>
   (compute_risk_level (PyFloat x) = ''MEDIUM'' \<longleftrightarrow>
      float_ge x (float_literal ''0.45'') \<and> float_lt x (float_literal ''0.70'')) \<and>
   (compute_risk_level (PyFloat x) = ''LOW'' \<longleftrightarrow> float_lt x (float_literal ''0.45'') \<or> x = NaN)"
    unfolding literal_070 literal_045 compute_risk_level_float
    by (cases x) auto
  have b: "compute_risk_level (PyBool b) = (if b then ''HIGH'' else ''LOW'')"
    by (simp add: compute_risk_level_def py_float_def literal_070 literal_045)
  have n: "compute_risk_level PyNone = ''LOW''"
    by (simp add: compute_risk_level_def py_float_def)
  have s: "compute_risk_level (PyStr s) =
     (case float_of_string s of None \<Rightarrow> ''LOW'' | Some y \<Rightarrow> compute_risk_level (PyFloat y))"
    by (simp add: compute_risk_level_def py_float_def split: option.split)
  show ?thesis
    using f b n s literal_070 literal_045 compute_risk_level_int by blast
qed

theorem compute_risk_level_by_kind_examples:
  "compute_risk_level (PyStr ''0.69999999999999999'') = ''HIGH'' \<and>
   compute_risk_level (PyStr ''0.44999999999999999'') = ''MEDIUM'' \<and>
   compute_risk_level (PyStr [CHR 0xC2, CHR 0xA0, CHR ''0'', CHR ''.'', CHR 0xEF, CHR 0xBC, CHR 0x99]) = ''HIGH'' \<and>
   compute_risk_level (PyStr ''abc'') = ''LOW'' \<and>
   compute_risk_level (PyFloat (float_literal ''0.7'')) = ''HIGH'' \<and>
   compute_risk_level (PyFloat (float_literal ''0.45'')) = ''MEDIUM'' \<and>
   compute_risk_level (PyFloat NaN) = ''LOW'' \<and>
   compute_risk_level (PyInt 1) = ''HIGH'' \<and>
   compute_risk_level (PyInt 0) = ''LOW'' \<and>
   compute_risk_level (PyBool True) = ''HIGH''"
proof -
  let ?h = "Num (3152519739159347 / 4503599627370496)"
  let ?m = "Num (8106479329266893 / 18014398509481984)"
  let ?u = "Num (8106479329266893 / 9007199254740992)"
  have l7: "float_literal ''0.7'' = ?h" by code_simp
  have abc: "float_of_string ''abc'' = None" by code_simp
  have h: "compute_risk_level (PyFloat ?h) = ''HIGH''"
    using compute_risk_level_by_kind [of ?h 0 True "''abc''"] by simp
  have m: "compute_risk_level (PyFloat ?m) = ''MEDIUM''"
    using compute_risk_level_by_kind [of ?m 0 True "''abc''"] by simp
  have u: "compute_risk_level (PyFloat ?u) = ''HIGH''"
    using compute_risk_level_by_kind [of ?u 0 True "''abc''"] by simp
  have n: "compute_risk_level (PyFloat NaN) = ''LOW''"
    using compute_risk_level_by_kind [of NaN 1 True "''abc''"] by simp
  have s1: "compute_risk_level (PyStr ''0.69999999999999999'') = ''HIGH''"
    using compute_risk_level_by_kind [of ?h 0 True "''0.69999999999999999''"]
    by (simp add: float_of_string_below_070 h)
  have s2: "compute_risk_level (PyStr ''0.44999999999999999'') = ''MEDIUM''"
    using compute_risk_level_by_kind [of ?h 0 True "''0.44999999999999999''"]
    by (simp add: float_of_string_below_045 m)
  have s3: "compute_risk_level (PyStr [CHR 0xC2, CHR 0xA0, CHR ''0'', CHR ''.'', CHR 0xEF, CHR 0xBC, CHR 0x99]) = ''HIGH''"
    using compute_risk_level_by_kind
      [of ?h 0 True "[CHR 0xC2, CHR 0xA0, CHR ''0'', CHR ''.'', CHR 0xEF, CHR 0xBC, CHR 0x99]"]
    by (simp add: float_of_string_unicode u)
  have s4: "compute_risk_level (PyStr ''abc'') = ''LOW''"
    using compute_risk_level_by_kind [of ?h 0 True "''abc''"] by (simp add: abc)
  have i1: "compute_risk_level (PyInt 1) = ''HIGH''"
    using compute_risk_level_by_kind [of ?h 1 True "''abc''"] by simp
  have i0: "compute_risk_level (PyInt 0) = ''LOW''"
    using compute_risk_level_by_kind [of ?h 0 True "''abc''"] by simp
  have b: "compute_risk_level (PyBool True) = ''HIGH''"
    using compute_risk_level_by_kind [of ?h 0 True "''abc''"] by simp
  show ?thesis
    unfolding l7 literal_045 by (intro conjI) (rule s1 s2 s3 s4 h m n i1 i0 b)+
qed

text \<open>
  C1 as stated fails at the int \<open>10 ^ 400\<close>: it is a number, it is at least 0.70, and
  the classifier does not return HIGH, because \<^verbatim>\<open>float()\<close> raises OverflowError.
\<close>

theorem compute_risk_level_huge_int:
  "(7 / 10 :: real) \<le> real_of_int (10 ^ 400) \<and> compute_risk_level (PyInt (10 ^ 400)) \<noteq> ''HIGH''"
proof -
  have "(1 :: real) \<le> 10 ^ 400" by (rule one_le_power) simp
  then have "(7 / 10 :: real) \<le> real_of_int (10 ^ 400)" by simp
  moreover have "compute_risk_level (PyInt (10 ^ 400)) = ''LOW''"
    by (simp add: compute_risk_level_def py_float_def float_of_pyint_def)
  ultimately show ?thesis by simp
qed

text \<open>
  C9, as the code has it. \<open>compute_risk_level\<close> is total: it returns one of LOW, MEDIUM,
  HIGH for every input. It is not idempotent: its result is a tier label, which
  \<^verbatim>\<open>float()\<close> rejects, so applied to its own result it returns LOW whatever the
  first result was.
\<close>

theorem compute_risk_level_total_and_relabel:
  "compute_risk_level s \<in> {''LOW'', ''MEDIUM'', ''HIGH''} \<and>
   compute_risk_level (PyStr (compute_risk_level s)) = ''LOW''"
proof -
  have "compute_risk_level (PyStr l) = ''LOW''"
    if "l = ''HIGH'' \<or> l = ''MEDIUM'' \<or> l = ''LOW''" for l
    using that label_HIGH_rejected label_MEDIUM_rejected label_LOW_rejected
    by (auto simp: compute_risk_level_def)
  then show ?thesis
    using compute_risk_level_cases [of s] by auto
qed

text \<open>
  C9 as stated fails: at the score 0.9 the classifier returns HIGH, and on HIGH it
  returns LOW.
\<close>

theorem compute_risk_level_not_idempotent:
  "compute_risk_level (PyStr (compute_risk_level (PyFloat (Num 0.9))))
     \<noteq> compute_risk_level (PyFloat (Num 0.9))"
proof -
  have "compute_risk_level (PyFloat (Num 0.9)) = ''HIGH''"
    by (simp add: compute_risk_level_def py_float_def literal_070)
  then show ?thesis
    using label_HIGH_rejected by (simp add: compute_risk_level_def)
qed

section \<open>Properties of the knowledge lookup\<close>

text \<open>
  C3 at the score 0.72: the classifier returns HIGH (its bound is 0.70) and
  \<open>ml_explanation\<close> returns the medium-band list (its bound is 0.75).
\<close>

theorem ml_explanation_band_at_072:
  "compute_risk_level (PyFloat (Num 0.72)) = ''HIGH'' \<and>
   ml_explanation (PyFloat (Num 0.72)) = Inr [''Suspicious behavior detected'', ''Moderate anomaly score'']"
  by (simp add: compute_risk_level_def py_float_def ml_explanation_def py_ge_def
      literal_070 literal_045 literal_075)

text \<open>The same at the float that the literal \<^verbatim>\<open>0.72\<close> denotes.\<close>

lemma ml_explanation_band_at_literal_072:
  "float_literal ''0.72'' = Num (3242591731706757 / 4503599627370496) \<and>
   compute_risk_level (PyFloat (float_literal ''0.72'')) = ''HIGH'' \<and>
   ml_explanation (PyFloat (float_literal ''0.72''))
     = Inr [''Suspicious behavior detected'', ''Moderate anomaly score'']"
proof -
  have l: "float_literal ''0.72'' = Num (3242591731706757 / 4503599627370496)"
    by code_simp
  show ?thesis
    unfolding l
    by (simp add: compute_risk_level_def py_float_def ml_explanation_def py_ge_def
        literal_070 literal_045 literal_075)
qed

text \<open>Outside the scores from 0.70 up to 0.75 the two functions select the same band.\<close>

lemma ml_explanation_agrees_outside_gap:
  assumes "\<not> (float_ge x (float_literal ''0.70'') \<and> \<not> float_ge x (float_literal ''0.75''))"
  shows "(ml_explanation (PyFloat x) =
            Inr [''Strong privilege escalation signal'', ''Off-hours administrative activity'',
                 ''Multiple failed authentication attempts'']
          \<longleftrightarrow> compute_risk_level (PyFloat x) = ''HIGH'') \<and>
         (ml_explanation (PyFloat x) = Inr [''Suspicious behavior detected'', ''Moderate anomaly score'']
          \<longleftrightarrow> compute_risk_level (PyFloat x) = ''MEDIUM'') \<and>
         (ml_explanation (PyFloat x) = Inr [''Low-confidence anomaly'', ''Likely benign activity'']
          \<longleftrightarrow> compute_risk_level (PyFloat x) = ''LOW'')"
  using assms
  by (cases x)
    (auto simp: compute_risk_level_def py_float_def ml_explanation_def py_ge_def
       literal_070 literal_045 literal_075)

text \<open>
  C8. The lookup maps PRIV_ESC to (Privilege Escalation, T1068), and every code that is
  not a key of the map to (Unknown, N/A).
\<close>

theorem mitre_lookup_known_and_default:
  "mitre_lookup (PyStr ''PRIV_ESC'') = (''Privilege Escalation'', ''T1068'') \<and>
   (code \<notin> fst ` set MITRE_MAP \<longrightarrow> mitre_lookup (PyStr code) = (''Unknown'', ''N/A''))"
proof -
  have "map_of MITRE_MAP code = None" if "code \<notin> fst ` set MITRE_MAP"
    using that by (simp add: map_of_eq_None_iff)
  moreover have "mitre_lookup (PyStr ''PRIV_ESC'') = (''Privilege Escalation'', ''T1068'')"
    by (simp add: mitre_lookup_def MITRE_MAP_def)
  ultimately show ?thesis by (simp add: mitre_lookup_def)
qed

theorem mitre_lookup_unknown_code:
  "''UNKNOWN_CODE'' \<notin> fst ` set MITRE_MAP \<and>
   mitre_lookup (PyStr ''UNKNOWN_CODE'') = (''Unknown'', ''N/A'')"
proof -
  have h: "''UNKNOWN_CODE'' \<notin> fst ` set MITRE_MAP" by (simp add: MITRE_MAP_def)
  with mitre_lookup_known_and_default [of "''UNKNOWN_CODE''"] show ?thesis by blast
qed

section \<open>Properties of the schema normalizer\<close>

lemma found_risk_col_first:
  assumes "i < length as" "as ! i \<in> set cols" "\<forall>j<i. as ! j \<notin> set cols"
  shows "found_risk_col as cols = Some (as ! i)"
  using assms
proof (induction as arbitrary: i)
  case Nil
  then show ?case by simp
next
  case (Cons a as)
  show ?case
  proof (cases i)
    case 0
    with Cons.prems show ?thesis by simp
  next
    case (Suc k)
    from Cons.prems(3) Suc have "a \<notin> set cols" by fastforce
    moreover have "found_risk_col as cols = Some (as ! k)"
    proof (rule Cons.IH)
      show "k < length as" using Cons.prems(1) Suc by simp
      show "as ! k \<in> set cols" using Cons.prems(2) Suc by simp
      show "\<forall>j<k. as ! j \<notin> set cols" using Cons.prems(3) Suc by fastforce
    qed
    ultimately show ?thesis using Suc by simp
  qed
qed

lemma found_risk_col_member:
  "found_risk_col as cols = Some c \<Longrightarrow> c \<in> set as \<and> c \<in> set cols"
  by (induction as) (auto split: if_splits)

lemma found_risk_col_none:
  "found_risk_col as cols = None \<longleftrightarrow> (\<forall>a\<in>set as. a \<notin> set cols)"
  by (induction as) auto

lemma aliases_nonempty: "c \<in> set RISK_ALIASES \<Longrightarrow> c \<noteq> []"
  by (auto simp: RISK_ALIASES_def)

lemma column_normalization_found:
  assumes "found_risk_col RISK_ALIASES (df_columns df) = Some c"
  shows "column_normalization df = ([], Inr (rename_column c ''risk_score'' df))"
  using assms found_risk_col_member [OF assms] aliases_nonempty [of c]
  by (simp add: column_normalization_def)

lemma rename_column_columns:
  "df_columns (rename_column old new df) = map (\<lambda>c. if c = old then new else c) (df_columns df)"
  by (simp add: rename_column_def map_idI)

lemma rename_column_get:
  assumes "c \<in> set (df_columns df)"
  shows "get_column new (rename_column c new df) = get_column c df"
proof (cases "c = new")
  case True
  then show ?thesis by (simp add: rename_column_def)
next
  case False
  have "new \<in> set (df_columns (rename_column c new df))"
    using assms by (force simp: rename_column_columns)
  then show ?thesis
    using assms False by (simp add: get_column_def rename_column_def cell_def)
qed

text \<open>
  C4. The normalizer binds the risk-score column to the first alias present in the order
  risk_score, risk, score, anomaly_score, severity_score: when the alias at position
  \<open>i\<close> is a column and no alias before it is, that alias is found, the load goes on
  with the table in which that column is named risk_score, and the cells of risk_score
  are the cells the alias column had. In particular a table with the columns risk and
  score (and no column risk_score, which comes before both) binds to risk.
\<close>

theorem risk_column_first_alias:
  "(i < length RISK_ALIASES \<and> RISK_ALIASES ! i \<in> set (df_columns df)
      \<and> (\<forall>j<i. RISK_ALIASES ! j \<notin> set (df_columns df))
    \<longrightarrow> found_risk_col RISK_ALIASES (df_columns df) = Some (RISK_ALIASES ! i)
      \<and> column_normalization df = ([], Inr (rename_column (RISK_ALIASES ! i) ''risk_score'' df))
      \<and> df_columns (rename_column (RISK_ALIASES ! i) ''risk_score'' df)
          = map (\<lambda>c. if c = RISK_ALIASES ! i then ''risk_score'' else c) (df_columns df)
      \<and> get_column ''risk_score'' (rename_column (RISK_ALIASES ! i) ''risk_score'' df)
          = get_column (RISK_ALIASES ! i) df)
   \<and> (''risk'' \<in> set (df_columns df) \<and> ''score'' \<in> set (df_columns df)
        \<and> ''risk_score'' \<notin> set (df_columns df)
      \<longrightarrow> found_risk_col RISK_ALIASES (df_columns df) = Some ''risk'')"
proof (intro conjI impI)
  assume h: "i < length RISK_ALIASES \<and> RISK_ALIASES ! i \<in> set (df_columns df)
      \<and> (\<forall>j<i. RISK_ALIASES ! j \<notin> set (df_columns df))"
  then show f: "found_risk_col RISK_ALIASES (df_columns df) = Some (RISK_ALIASES ! i)"
    by (simp add: found_risk_col_first)
  then show "column_normalization df = ([], Inr (rename_column (RISK_ALIASES ! i) ''risk_score'' df))"
    by (rule column_normalization_found)
  show "df_columns (rename_column (RISK_ALIASES ! i) ''risk_score'' df)
          = map (\<lambda>c. if c = RISK_ALIASES ! i then ''risk_score'' else c) (df_columns df)"
    by (rule rename_column_columns)
  show "get_column ''risk_score'' (rename_column (RISK_ALIASES ! i) ''risk_score'' df)
          = get_column (RISK_ALIASES ! i) df"
    using h by (simp add: rename_column_get)
next
  assume "''risk'' \<in> set (df_columns df) \<and> ''score'' \<in> set (df_columns df)
        \<and> ''risk_score'' \<notin> set (df_columns df)"
  then show "found_risk_col RISK_ALIASES (df_columns df) = Some ''risk''"
    by (simp add: RISK_ALIASES_def)
qed

theorem risk_column_first_alias_example:
  "found_risk_col RISK_ALIASES (df_columns example_table) = Some ''risk'' \<and>
   (\<exists>d. column_normalization example_table = ([], Inr d) \<and>
        df_columns d = [''alert_type'', ''score'', ''user'', ''risk_score'', ''destination_host''] \<and>
        get_column ''risk_score'' d = Inr [PyFloat (Num 0.72), PyFloat NaN])"
proof -
  have a: "RISK_ALIASES ! Suc 0 = ''risk''" by (simp add: RISK_ALIASES_def)
  have h1: "Suc 0 < length RISK_ALIASES \<and> RISK_ALIASES ! Suc 0 \<in> set (df_columns example_table)
      \<and> (\<forall>j<Suc 0. RISK_ALIASES ! j \<notin> set (df_columns example_table))"
    by (simp add: RISK_ALIASES_def example_table_def)
  have h2: "''risk'' \<in> set (df_columns example_table) \<and> ''score'' \<in> set (df_columns example_table)
        \<and> ''risk_score'' \<notin> set (df_columns example_table)"
    by (simp add: example_table_def)
  have g: "get_column ''risk'' example_table = Inr [PyFloat (Num 0.72), PyFloat NaN]"
    by (simp add: get_column_def example_table_def cell_def)
  have c: "df_columns example_table = [''alert_type'', ''score'', ''user'', ''risk'', ''destination_host'']"
    by (simp add: example_table_def)
  note t = risk_column_first_alias [of "Suc 0" example_table]
  from t h2 have "found_risk_col RISK_ALIASES (df_columns example_table) = Some ''risk''"
    by blast
  moreover from t h1 have
    "column_normalization example_table = ([], Inr (rename_column ''risk'' ''risk_score'' example_table))"
    "df_columns (rename_column ''risk'' ''risk_score'' example_table)
       = map (\<lambda>c. if c = ''risk'' then ''risk_score'' else c) (df_columns example_table)"
    "get_column ''risk_score'' (rename_column ''risk'' ''risk_score'' example_table)
       = get_column ''risk'' example_table"
    unfolding a by blast+
  ultimately show ?thesis
    by (simp add: g c)
qed


lemma alias_list_text:
  "str_join '', '' RISK_ALIASES = ''risk_score, risk, score, anomaly_score, severity_score''"
  by (simp add: RISK_ALIASES_def)

text \<open>
  C5. For a table with none of the five aliases the load aborts: one error dialog is
  shown whose message lists the five alias names, and the process exits with status 1.
\<close>

theorem no_alias_aborts:
  assumes "\<forall>a\<in>set RISK_ALIASES. a \<notin> set (df_columns df)"
  shows "load_pipeline df =
           ([(''CSV Error'',
              ''No risk score column found.'' @ NL @ NL @ ''Expected one of:'' @ NL
                @ ''risk_score, risk, score, anomaly_score, severity_score'')],
            Inl (SysExit 1))"
proof -
  have "found_risk_col RISK_ALIASES (df_columns df) = None"
    using assms by (simp add: found_risk_col_none)
  then have "column_normalization df =
           ([(''CSV Error'',
              ''No risk score column found.'' @ NL @ NL @ ''Expected one of:'' @ NL
                @ str_join '', '' RISK_ALIASES)],
            Inl (SysExit 1))"
    by (simp add: column_normalization_def)
  then show ?thesis
    unfolding alias_list_text by (simp add: load_pipeline_def bind_run_def)
qed

theorem no_alias_aborts_example:
  "set RISK_ALIASES \<inter> set (df_columns no_alias_table) = {} \<and>
   load_pipeline no_alias_table =
     ([(''CSV Error'',
        ''No risk score column found.'' @ NL @ NL @ ''Expected one of:'' @ NL
          @ ''risk_score, risk, score, anomaly_score, severity_score'')],
      Inl (SysExit 1))"
proof -
  have h: "\<forall>a\<in>set RISK_ALIASES. a \<notin> set (df_columns no_alias_table)"
    by (simp add: RISK_ALIASES_def no_alias_table_def)
  have "set RISK_ALIASES \<inter> set (df_columns no_alias_table) = {}"
    by (simp add: RISK_ALIASES_def no_alias_table_def)
  with no_alias_aborts [OF h] show ?thesis by simp
qed

lemma normalized_has_risk_score:
  assumes "column_normalization df = ([], Inr d1)"
  shows "''risk_score'' \<in> set (df_columns d1)"
proof -
  obtain c where c: "found_risk_col RISK_ALIASES (df_columns df) = Some c"
    using assms by (cases "found_risk_col RISK_ALIASES (df_columns df)")
      (auto simp: column_normalization_def)
  then have d1: "d1 = rename_column c ''risk_score'' df"
    using assms column_normalization_found [OF c] by simp
  from found_risk_col_member [OF c] have "c \<in> set (df_columns df)" by simp
  then show ?thesis
    unfolding d1 rename_column_columns by force
qed

text \<open>
  C6. After the risk column is renamed, the columns missing among alert_type, user and
  destination_host are collected in that order (risk_score is never among them). If
  there are any, the load aborts with one error dialog listing exactly those names and
  the process exits with status 1; if there are none, the check passes and the load
  continues with the risk-level stage.
\<close>

theorem required_columns_check:
  assumes "column_normalization df = ([], Inr d1)"
  shows "missing d1 = filter (\<lambda>c. c \<notin> set (df_columns d1)) [''alert_type'', ''user'', ''destination_host'']
       \<and> validate_required d1 =
           (if missing d1 = [] then ([], Inr d1)
            else ([(''CSV Error'', ''Missing required columns:'' @ NL @ str_join '', '' (missing d1))],
                  Inl (SysExit 1)))
       \<and> load_pipeline df =
           (if missing d1 = [] then risk_level_stage d1
            else ([(''CSV Error'', ''Missing required columns:'' @ NL @ str_join '', '' (missing d1))],
                  Inl (SysExit 1)))"
proof -
  have m: "missing d1 = filter (\<lambda>c. c \<notin> set (df_columns d1)) [''alert_type'', ''user'', ''destination_host'']"
    using normalized_has_risk_score [OF assms] by (simp add: missing_def required_cols_def)
  have v: "validate_required d1 =
           (if missing d1 = [] then ([], Inr d1)
            else ([(''CSV Error'', ''Missing required columns:'' @ NL @ str_join '', '' (missing d1))],
                  Inl (SysExit 1)))"
    by (simp add: validate_required_def)
  have "load_pipeline df = bind_run (validate_required d1) risk_level_stage"
    using assms by (simp add: load_pipeline_def bind_run_def)
  also have "\<dots> = (if missing d1 = [] then risk_level_stage d1
            else ([(''CSV Error'', ''Missing required columns:'' @ NL @ str_join '', '' (missing d1))],
                  Inl (SysExit 1)))"
    unfolding v by (cases "risk_level_stage d1") (simp add: bind_run_def)
  finally show ?thesis using m v by simp
qed

theorem required_columns_check_example:
  "column_normalization no_user_table = ([], Inr (rename_column ''anomaly_score'' ''risk_score'' no_user_table)) \<and>
   missing (rename_column ''anomaly_score'' ''risk_score'' no_user_table) = [''user'', ''destination_host''] \<and>
   load_pipeline no_user_table =
     ([(''CSV Error'', ''Missing required columns:'' @ NL @ ''user, destination_host'')], Inl (SysExit 1))"
proof -
  have h: "column_normalization no_user_table
             = ([], Inr (rename_column ''anomaly_score'' ''risk_score'' no_user_table))"
    by (simp add: column_normalization_def no_user_table_def RISK_ALIASES_def)
  have c: "df_columns (rename_column ''anomaly_score'' ''risk_score'' no_user_table)
             = [''alert_type'', ''risk_score'']"
    by (simp add: rename_column_def no_user_table_def)
  from required_columns_check [OF h] h show ?thesis
    by (simp add: c)
qed

section \<open>Malformed scores\<close>

text \<open>
  C2 at a table that passes both schema checks and has the score \<^verbatim>\<open>abc\<close> in its one
  row: \<^verbatim>\<open>astype(float)\<close> raises ValueError before any row is classified, nothing
  handles it, and the load does not complete.
\<close>

theorem malformed_score_aborts_load:
  "load_pipeline malformed_table = ([], Inl (Unhandled ValueError))"
proof -
  have n: "column_normalization malformed_table = ([], Inr malformed_table)"
    by (simp add: column_normalization_def malformed_table_def RISK_ALIASES_def rename_column_def)
  have v: "validate_required malformed_table = ([], Inr malformed_table)"
    by (simp add: validate_required_def missing_def required_cols_def malformed_table_def)
  have g: "get_column ''risk_score'' malformed_table = Inr [PyStr ''abc'']"
    by (simp add: get_column_def malformed_table_def cell_def)
  have f: "py_float (PyStr ''abc'') = Inl ValueError"
    by code_simp
  have "risk_level_stage malformed_table = ([], Inl (Unhandled ValueError))"
    by (simp add: risk_level_stage_def raise_or_def g f)
  then show ?thesis
    by (simp add: load_pipeline_def bind_run_def n v)
qed

text \<open>
  The same holds for every table: a cell of risk_score that \<^verbatim>\<open>float()\<close> rejects
  ends the risk-level stage with an unhandled exception. A missing score (NaN) does not:
  the load completes and that row is LOW.
\<close>

lemma astype_float_rejects:
  "v \<in> set vs \<Longrightarrow> py_float v = Inl e \<Longrightarrow> \<exists>e'. astype_float vs = Inl e'"
  by (induction vs) (auto split: sum.splits)

lemma risk_level_stage_rejects:
  assumes "''risk_score'' \<in> set (df_columns d)" "r \<in> set (df_rows d)"
    "py_float (cell r ''risk_score'') = Inl e"
  shows "\<exists>e'. risk_level_stage d = ([], Inl (Unhandled e'))"
proof -
  have "cell r ''risk_score'' \<in> set (map (\<lambda>r. cell r ''risk_score'') (df_rows d))"
    using assms(2) by simp
  from astype_float_rejects [OF this assms(3)] obtain e'
    where "astype_float (map (\<lambda>r. cell r ''risk_score'') (df_rows d)) = Inl e'" ..
  then show ?thesis
    using assms(1) by (simp add: risk_level_stage_def raise_or_def get_column_def)
qed

lemma missing_score_is_LOW:
  "\<exists>d. load_pipeline example_table = ([], Inr d) \<and>
       map (\<lambda>r. (r ''risk_score'', r ''risk_level'', r ''status'')) (df_rows d) =
         [(Some (PyFloat (Num 0.72)), Some (PyStr ''HIGH''), Some (PyStr ''NEW'')),
          (Some (PyFloat NaN), Some (PyStr ''LOW''), Some (PyStr ''NEW''))]"
  by (simp add: load_pipeline_def column_normalization_def example_table_def RISK_ALIASES_def
      bind_run_def rename_column_def validate_required_def missing_def required_cols_def
      risk_level_stage_def raise_or_def get_column_def cell_def py_float_def set_column_def
      compute_risk_level_def literal_070 literal_045)


section \<open>Properties of the file search\<close>

lemma get_csv_path_search_order:
  "get_csv_path e f =
     (case List.find (path_exists e) (search_order e f) of
        Some p \<Rightarrow> Inr p
      | None \<Rightarrow> Inl (FileNotFoundError (f @ '' not found'')))"
  by (cases "meipass e") (simp_all add: get_csv_path_def search_order_def Let_def)

lemma find_None_all: "List.find P xs = None \<longleftrightarrow> (\<forall>x\<in>set xs. \<not> P x)"
  by (auto simp: find_None_iff)

text \<open>
  C7. A file name is resolved to the first existing path in the search order: the
  bundled resource directory (\<^verbatim>\<open>sys._MEIPASS\<close>, when set), the directory of the
  program (of the executable in a frozen build, of the script otherwise), the working
  directory. The primary name \<^verbatim>\<open>siem_alerts.csv\<close> is tried first; when it is in
  none of the places, the secondary name \<^verbatim>\<open>siem_features.csv\<close> is resolved the same
  way; when both are absent the process ends with an unhandled FileNotFoundError and no
  dialog.
\<close>

theorem input_file_resolution:
  "get_csv_path e f =
     (case List.find (path_exists e) (search_order e f) of
        Some p \<Rightarrow> Inr p
      | None \<Rightarrow> Inl (FileNotFoundError (f @ '' not found'')))
   \<and> (List.find (path_exists e) (search_order e ''siem_alerts.csv'') = Some p
        \<and> (\<forall>m. read_csv e p \<noteq> Inl (FileNotFoundError m))
      \<longrightarrow> load_data e = raise_or (read_csv e p) (\<lambda>df. ([], Inr df)))
   \<and> ((\<forall>q\<in>set (search_order e ''siem_alerts.csv''). \<not> path_exists e q)
      \<longrightarrow> load_data e =
            (case List.find (path_exists e) (search_order e ''siem_features.csv'') of
               Some q \<Rightarrow> raise_or (read_csv e q) (\<lambda>df. ([], Inr df))
             | None \<Rightarrow> ([], Inl (Unhandled (FileNotFoundError ''siem_features.csv not found'')))))
   \<and> ((\<forall>q\<in>set (search_order e ''siem_alerts.csv'' @ search_order e ''siem_features.csv'').
          \<not> path_exists e q)
      \<longrightarrow> startup e = ([], Inl (Unhandled (FileNotFoundError ''siem_features.csv not found''))))"
proof (intro conjI impI)
  show "get_csv_path e f =
     (case List.find (path_exists e) (search_order e f) of
        Some p \<Rightarrow> Inr p
      | None \<Rightarrow> Inl (FileNotFoundError (f @ '' not found'')))"
    by (rule get_csv_path_search_order)
next
  assume h: "List.find (path_exists e) (search_order e ''siem_alerts.csv'') = Some p
        \<and> (\<forall>m. read_csv e p \<noteq> Inl (FileNotFoundError m))"
  then have "read_named e ''siem_alerts.csv'' = read_csv e p"
    by (simp add: read_named_def get_csv_path_search_order)
  with h show "load_data e = raise_or (read_csv e p) (\<lambda>df. ([], Inr df))"
    by (auto simp: load_data_def raise_or_def split: sum.splits pyexc.splits)
next
  assume "\<forall>q\<in>set (search_order e ''siem_alerts.csv''). \<not> path_exists e q"
  then have "List.find (path_exists e) (search_order e ''siem_alerts.csv'') = None"
    by (simp add: find_None_all)
  then have "read_named e ''siem_alerts.csv'' = Inl (FileNotFoundError ''siem_alerts.csv not found'')"
    by (simp add: read_named_def get_csv_path_search_order)
  then show "load_data e =
            (case List.find (path_exists e) (search_order e ''siem_features.csv'') of
               Some q \<Rightarrow> raise_or (read_csv e q) (\<lambda>df. ([], Inr df))
             | None \<Rightarrow> ([], Inl (Unhandled (FileNotFoundError ''siem_features.csv not found''))))"
    by (simp add: load_data_def read_named_def get_csv_path_search_order raise_or_def
        split: option.split)
next
  assume a: "\<forall>q\<in>set (search_order e ''siem_alerts.csv'' @ search_order e ''siem_features.csv'').
          \<not> path_exists e q"
  then have "List.find (path_exists e) (search_order e ''siem_alerts.csv'') = None"
    and "List.find (path_exists e) (search_order e ''siem_features.csv'') = None"
    by (simp_all add: find_None_all)
  then have "load_data e = ([], Inl (Unhandled (FileNotFoundError ''siem_features.csv not found'')))"
    by (simp add: load_data_def read_named_def get_csv_path_search_order raise_or_def)
  then show "startup e = ([], Inl (Unhandled (FileNotFoundError ''siem_features.csv not found'')))"
    by (simp add: startup_def bind_run_def)
qed

lemma example_search_order:
  "search_order (example_env files) f =
     [posix_join ''/tmp/_MEI01'' f, posix_join ''/opt/app'' f, posix_join ''/home/soc'' f]"
  by (simp add: search_order_def example_env_def)

theorem input_file_resolution_examples:
  "load_data (example_env [''/opt/app/siem_alerts.csv'']) = ([], Inr example_table) \<and>
   load_data (example_env [''/home/soc/siem_features.csv'']) = ([], Inr example_table) \<and>
   startup (example_env []) = ([], Inl (Unhandled (FileNotFoundError ''siem_features.csv not found'')))"
proof -
  let ?e1 = "example_env [''/opt/app/siem_alerts.csv'']"
  let ?e2 = "example_env [''/home/soc/siem_features.csv'']"
  let ?e3 = "example_env []"
  have x: "path_exists (example_env files) = (\<lambda>p. p \<in> set files)" for files
    by (simp add: example_env_def)
  have r: "read_csv (example_env files) = (\<lambda>p. if p \<in> set files then Inr example_table else Inl (FileNotFoundError p))" for files
    by (simp add: example_env_def)
  have h1: "List.find (path_exists ?e1) (search_order ?e1 ''siem_alerts.csv'') = Some ''/opt/app/siem_alerts.csv''
        \<and> (\<forall>m. read_csv ?e1 ''/opt/app/siem_alerts.csv'' \<noteq> Inl (FileNotFoundError m))"
    by (simp add: example_search_order x r posix_join_def)
  have h2: "\<forall>q\<in>set (search_order ?e2 ''siem_alerts.csv''). \<not> path_exists ?e2 q"
    by (simp add: example_search_order x posix_join_def)
  have f2: "List.find (path_exists ?e2) (search_order ?e2 ''siem_features.csv'') = Some ''/home/soc/siem_features.csv''"
    by (simp add: example_search_order x posix_join_def)
  have h3: "\<forall>q\<in>set (search_order ?e3 ''siem_alerts.csv'' @ search_order ?e3 ''siem_features.csv'').
          \<not> path_exists ?e3 q"
    by (simp add: x)
  have "load_data ?e1 = ([], Inr example_table)"
    using input_file_resolution [of ?e1 "''siem_alerts.csv''" "''/opt/app/siem_alerts.csv''"] h1
    by (simp add: r raise_or_def)
  moreover have "load_data ?e2 = ([], Inr example_table)"
    using input_file_resolution [of ?e2 "''siem_alerts.csv''" "''/opt/app/siem_alerts.csv''"] h2
    by (simp add: f2 r raise_or_def)
  moreover have "startup ?e3 = ([], Inl (Unhandled (FileNotFoundError ''siem_features.csv not found'')))"
    using input_file_resolution [of ?e3 "''siem_alerts.csv''" "''/opt/app/siem_alerts.csv''"] h3
    by blast
  ultimately show ?thesis by simp
qed


section \<open>Properties of the displayed view\<close>

lemma mset_shuffle_steps:
  "i < length xs \<or> i = 0 \<Longrightarrow> mset (shuffle_steps i rnd xs) = mset xs"
proof (induction i arbitrary: xs)
  case 0
  then show ?case by simp
next
  case (Suc i)
  let ?j = "rnd (Suc i) mod Suc (Suc i)"
  let ?ys = "xs[Suc i := xs ! ?j, ?j := xs ! Suc i]"
  from Suc.prems have i: "Suc i < length xs" by simp
  have j: "?j < length xs" using i by (meson less_Suc_eq_le le_less_trans mod_less_divisor zero_less_Suc)
  have "mset (shuffle_steps i rnd ?ys) = mset ?ys"
    by (rule Suc.IH) (use i in simp)
  also have "\<dots> = mset xs" using j i by (rule mset_swap)
  finally show ?case by (simp add: Let_def)
qed

lemma mset_permutation: "mset (permutation rnd n) = mset [0..<n]"
  unfolding permutation_def by (rule mset_shuffle_steps) (cases n, simp_all)

lemma mset_take_positions:
  assumes "mset locs = mset [0..<length xs]"
  shows "mset (map (\<lambda>i. xs ! i) locs) = mset xs"
proof -
  have "mset (map (\<lambda>i. xs ! i) locs) = image_mset (\<lambda>i. xs ! i) (mset locs)" by simp
  also have "\<dots> = image_mset (\<lambda>i. xs ! i) (mset [0..<length xs])" using assms by simp
  also have "\<dots> = mset (map (\<lambda>i. xs ! i) [0..<length xs])" by simp
  also have "\<dots> = mset xs" by (simp add: map_nth)
  finally show ?thesis .
qed

lemma df_view_fields:
  "df_columns (df_view rnd df) = df_columns df"
  "df_rows (df_view rnd df) = map (\<lambda>i. df_rows df ! i) (permutation rnd (length (df_rows df)))"
  "df_index (df_view rnd df) = [0..<length (df_rows (df_view rnd df))]"
  by (simp_all add: df_view_def reset_index_def sample_all_def take_rows_def)

lemma df_view_rows: "mset (df_rows (df_view rnd df)) = mset (df_rows df)"
  unfolding df_view_fields by (rule mset_take_positions) (rule mset_permutation)

lemma df_view_length: "length (df_rows (df_view rnd df)) = length (df_rows df)"
  using df_view_rows [of rnd df] by (metis size_mset)

lemma populate_table_items:
  "populate_table sev view =
     (if sev = ''ALL'' then zip (df_index view) (df_rows view)
      else filter (\<lambda>(i, r). cell r ''risk_level'' = PyStr sev) (zip (df_index view) (df_rows view)))"
  by (simp add: populate_table_def iterrows_def boolean_mask_def zip_map_fst_snd)

lemma in_zip_upt: "(i, r) \<in> set (zip [0..<length rs] rs) \<longleftrightarrow> i < length rs \<and> rs ! i = r"
  by (auto simp: in_set_zip intro!: exI [of _ i])

lemma populate_table_member:
  assumes "df_index view = [0..<length (df_rows view)]" "(i, r) \<in> set (populate_table sev view)"
  shows "i < length (df_rows view) \<and> df_rows view ! i = r"
proof -
  have "(i, r) \<in> set (zip [0..<length (df_rows view)] (df_rows view))"
    using assms by (auto simp: populate_table_items split: if_splits)
  then show ?thesis by (simp only: in_zip_upt)
qed

lemma populate_table_rows:
  assumes "df_index view = [0..<length (df_rows view)]"
  shows "map snd (populate_table sev view) =
     (if sev = ''ALL'' then df_rows view
      else filter (\<lambda>r. cell r ''risk_level'' = PyStr sev) (df_rows view))"
proof -
  have z: "map snd (zip (df_index view) (df_rows view)) = df_rows view"
    by (simp add: assms map_snd_zip)
  have "(\<lambda>(i :: nat, r). cell r ''risk_level'' = PyStr sev) = (\<lambda>r. cell r ''risk_level'' = PyStr sev) \<circ> snd"
    by (simp add: fun_eq_iff)
  then have "map snd (filter (\<lambda>(i, r). cell r ''risk_level'' = PyStr sev) (zip (df_index view) (df_rows view)))
      = filter (\<lambda>r. cell r ''risk_level'' = PyStr sev) (df_rows view)"
    by (simp only: filter_map [symmetric] z)
  then show ?thesis using z by (simp add: populate_table_items)
qed

lemma astype_float_result:
  "astype_float vs = Inr fs \<Longrightarrow> length fs = length vs \<and> (\<forall>v\<in>set fs. \<exists>x. v = PyFloat x)"
  by (induction vs arbitrary: fs) (auto split: sum.splits)

lemma set_column_rows_other:
  assumes "length vals = length (df_rows d)" "r \<in> set (df_rows (set_column c vals d))" "k \<noteq> c"
  shows "\<exists>r0\<in>set (df_rows d). r k = r0 k"
proof -
  from assms(2) obtain n where n: "n < length (df_rows d)" "r = (df_rows d ! n)(c \<mapsto> vals ! n)"
    using assms(1) by (auto simp: set_column_def in_set_zip)
  then have "df_rows d ! n \<in> set (df_rows d)" "r k = (df_rows d ! n) k"
    using assms(3) by simp_all
  then show ?thesis by blast
qed

lemma set_column_rows_same:
  assumes "r \<in> set (df_rows (set_column c vals d))"
  shows "\<exists>v\<in>set vals. r c = Some v"
  using assms by (auto simp: set_column_def in_set_zip)

lemma set_column_length:
  "length vals = length (df_rows d) \<Longrightarrow> length (df_rows (set_column c vals d)) = length (df_rows d)"
  by (simp add: set_column_def)

lemma set_column_columns: "set (df_columns d) \<subseteq> set (df_columns (set_column c vals d))"
  by (auto simp: set_column_def)

lemma risk_level_stage_result:
  assumes "risk_level_stage d = (ds, Inr df)"
  shows "set (df_columns d) \<subseteq> set (df_columns df)
       \<and> (\<forall>r\<in>set (df_rows df). \<exists>x. r ''risk_score'' = Some (PyFloat x))"
proof -
  from assms obtain col where col: "get_column ''risk_score'' d = Inr col"
    by (cases "get_column ''risk_score'' d") (auto simp: risk_level_stage_def raise_or_def)
  then have lcol: "length col = length (df_rows d)"
    by (auto simp: get_column_def split: if_splits)
  from assms col obtain fs where fs: "astype_float col = Inr fs"
    by (cases "astype_float col") (auto simp: risk_level_stage_def raise_or_def)
  let ?d1 = "set_column ''risk_score'' fs d"
  from astype_float_result [OF fs] lcol
  have lfs: "length fs = length (df_rows d)" and ffs: "\<forall>v\<in>set fs. \<exists>x. v = PyFloat x" by simp_all
  have c1: "''risk_score'' \<in> set (df_columns ?d1)"
    using col by (auto simp: set_column_def get_column_def split: if_splits)
  then have s1: "get_column ''risk_score'' ?d1 = Inr (map (\<lambda>r. cell r ''risk_score'') (df_rows ?d1))"
    by (simp add: get_column_def)
  let ?lv = "map (\<lambda>s. PyStr (compute_risk_level s)) (map (\<lambda>r. cell r ''risk_score'') (df_rows ?d1))"
  let ?d2 = "set_column ''risk_level'' ?lv ?d1"
  let ?d3 = "set_column ''status'' (replicate (length (df_rows ?d2)) (PyStr ''NEW'')) ?d2"
  have df: "df = ?d3"
    using assms by (simp add: risk_level_stage_def raise_or_def col fs s1 Let_def)
  have l1: "length (df_rows ?d1) = length (df_rows d)" using lfs by (rule set_column_length)
  have r1: "\<exists>x. r ''risk_score'' = Some (PyFloat x)" if "r \<in> set (df_rows ?d1)" for r
    using set_column_rows_same [OF that] ffs by auto
  have r2: "\<exists>x. r ''risk_score'' = Some (PyFloat x)" if "r \<in> set (df_rows ?d2)" for r
  proof -
    have "length ?lv = length (df_rows ?d1)" by simp
    from set_column_rows_other [OF this that, of "''risk_score''"]
    obtain r0 where "r0 \<in> set (df_rows ?d1)" "r ''risk_score'' = r0 ''risk_score''" by auto
    then show ?thesis using r1 by auto
  qed
  have r3: "\<exists>x. r ''risk_score'' = Some (PyFloat x)" if "r \<in> set (df_rows ?d3)" for r
  proof -
    have "length (replicate (length (df_rows ?d2)) (PyStr ''NEW'')) = length (df_rows ?d2)" by simp
    from set_column_rows_other [OF this that, of "''risk_score''"]
    obtain r0 where "r0 \<in> set (df_rows ?d2)" "r ''risk_score'' = r0 ''risk_score''" by auto
    then show ?thesis using r2 by auto
  qed
  have "set (df_columns d) \<subseteq> set (df_columns ?d3)"
    using set_column_columns [of d "''risk_score''" fs]
      set_column_columns [of ?d1 "''risk_level''" ?lv]
      set_column_columns [of ?d2 "''status''" "replicate (length (df_rows ?d2)) (PyStr ''NEW'')"]
    by blast
  then show ?thesis using r3 df by blast
qed

lemma load_pipeline_result:
  assumes "load_pipeline table = (ds, Inr df)"
  shows "''alert_type'' \<in> set (df_columns df) \<and> ''risk_score'' \<in> set (df_columns df)
       \<and> (\<forall>r\<in>set (df_rows df). \<exists>x. r ''risk_score'' = Some (PyFloat x))"
proof -
  obtain ds1 r1 where n: "column_normalization table = (ds1, r1)" by (cases "column_normalization table")
  with assms obtain d1 where d1: "r1 = Inr d1"
    by (cases r1) (auto simp: load_pipeline_def bind_run_def)
  obtain ds2 r2 where v: "validate_required d1 = (ds2, r2)" by (cases "validate_required d1")
  have m: "missing d1 = []" and r2: "r2 = Inr d1"
    using assms n d1 v
    by (auto simp: load_pipeline_def bind_run_def validate_required_def split: if_splits prod.splits)
  obtain ds3 where s: "risk_level_stage d1 = (ds3, Inr df)"
    using assms n d1 v r2
    by (auto simp: load_pipeline_def bind_run_def split: prod.splits sum.splits)
  have "''alert_type'' \<in> set (df_columns d1)" "''risk_score'' \<in> set (df_columns d1)"
    using m by (auto simp: missing_def required_cols_def split: if_splits)
  then show ?thesis using risk_level_stage_result [OF s] by blast
qed

lemma ml_explanation_float: "\<exists>expl. ml_explanation (PyFloat x) = Inr expl"
  by (simp add: ml_explanation_def py_ge_def split: bool.split)

lemma on_select_row:
  assumes "iloc view i = Inr r" "''alert_type'' \<in> set (df_columns view)"
    "''risk_score'' \<in> set (df_columns view)" "ml_explanation (cell r ''risk_score'') = Inr expl"
  shows "on_select view (i # sel) = Some (Inr (r, mitre_lookup (cell r ''alert_type''), expl))"
  using assms by (simp add: on_select_def bind_exc_def row_get_def)

text \<open>
  C10. For every sequence of draws of the random generator, the view has the columns of
  the loaded table, the same multiset of rows, and the index \<open>0..n-1\<close>. The items
  \<^verbatim>\<open>populate_table\<close> inserts are, for ALL, all loaded rows, and for a severity
  exactly the loaded rows of that risk level; every item carries a loaded row and its
  item id is the position of that row in the view. When the table is the result of the
  load, \<^verbatim>\<open>on_select\<close> on an item id fills the panel from that very row: the row,
  the tactic and technique of its alert type, and the explanation of its score.
\<close>

theorem df_view_is_permutation:
  "df_columns (df_view rnd df) = df_columns df
   \<and> mset (df_rows (df_view rnd df)) = mset (df_rows df)
   \<and> df_index (df_view rnd df) = [0..<length (df_rows df)]
   \<and> mset (map snd (populate_table sev (df_view rnd df))) =
       (if sev = ''ALL'' then mset (df_rows df)
        else filter_mset (\<lambda>r. cell r ''risk_level'' = PyStr sev) (mset (df_rows df)))
   \<and> (\<forall>(i, r)\<in>set (populate_table sev (df_view rnd df)).
        r \<in> set (df_rows df) \<and> iloc (df_view rnd df) i = Inr r)
   \<and> (load_pipeline table = (dialogs, Inr df) \<longrightarrow>
        (\<forall>(i, r)\<in>set (populate_table sev (df_view rnd df)).
           \<exists>x expl. cell r ''risk_score'' = PyFloat x \<and> ml_explanation (PyFloat x) = Inr expl \<and>
             on_select (df_view rnd df) (i # sel)
               = Some (Inr (r, mitre_lookup (cell r ''alert_type''), expl))))"
proof -
  let ?v = "df_view rnd df"
  have rows: "mset (df_rows ?v) = mset (df_rows df)" by (rule df_view_rows)
  have idx: "df_index ?v = [0..<length (df_rows ?v)]" by (rule df_view_fields)
  have idx': "df_index ?v = [0..<length (df_rows df)]"
    using idx by (simp only: df_view_length)
  have shown: "mset (map snd (populate_table sev ?v)) =
           (if sev = ''ALL'' then mset (df_rows df)
            else filter_mset (\<lambda>r. cell r ''risk_level'' = PyStr sev) (mset (df_rows df)))"
  proof -
    have "mset (filter (\<lambda>r. cell r ''risk_level'' = PyStr sev) (df_rows ?v))
        = filter_mset (\<lambda>r. cell r ''risk_level'' = PyStr sev) (mset (df_rows df))"
      by (simp only: mset_filter rows)
    then show ?thesis using rows by (simp add: populate_table_rows [OF idx])
  qed
  have items: "r \<in> set (df_rows df) \<and> iloc ?v i = Inr r"
    if "(i, r) \<in> set (populate_table sev ?v)" for i r
  proof -
    from populate_table_member [OF idx that]
    have m: "i < length (df_rows ?v)" "df_rows ?v ! i = r" by simp_all
    then have "r \<in> set (df_rows ?v)" by (metis nth_mem)
    then have "r \<in># mset (df_rows df)" using rows by (metis set_mset_mset)
    then show ?thesis using m by (simp add: iloc_def)
  qed
  have panel: "\<exists>x expl. cell r ''risk_score'' = PyFloat x \<and> ml_explanation (PyFloat x) = Inr expl \<and>
             on_select ?v (i # sel) = Some (Inr (r, mitre_lookup (cell r ''alert_type''), expl))"
    if l: "load_pipeline table = (dialogs, Inr df)" and "(i, r) \<in> set (populate_table sev ?v)" for i r
  proof -
    from items [OF that(2)] have r: "r \<in> set (df_rows df)" and il: "iloc ?v i = Inr r" by simp_all
    from load_pipeline_result [OF l] r obtain x
      where c: "''alert_type'' \<in> set (df_columns ?v)" "''risk_score'' \<in> set (df_columns ?v)"
        and x: "r ''risk_score'' = Some (PyFloat x)"
      by (auto simp: df_view_fields)
    then have cx: "cell r ''risk_score'' = PyFloat x" by (simp add: cell_def)
    obtain expl where e: "ml_explanation (PyFloat x) = Inr expl"
      using ml_explanation_float by blast
    with on_select_row [OF il c, of expl sel] cx show ?thesis by auto
  qed
  show ?thesis
    using rows idx' shown items panel by (auto simp: df_view_fields(1))
qed

lemma example_table_loaded:
  "\<exists>df. load_pipeline example_table = ([], Inr df) \<and> length (df_rows df) = 2 \<and>
        cell (df_rows df ! 0) ''alert_type'' = PyStr ''PRIV_ESC'' \<and>
        cell (df_rows df ! 0) ''risk_score'' = PyFloat (Num 0.72) \<and>
        cell (df_rows df ! 0) ''risk_level'' = PyStr ''HIGH'' \<and>
        cell (df_rows df ! 1) ''alert_type'' = PyStr ''PORT_SCAN'' \<and>
        cell (df_rows df ! 1) ''risk_score'' = PyFloat NaN \<and>
        cell (df_rows df ! 1) ''risk_level'' = PyStr ''LOW''"
  by (simp add: load_pipeline_def column_normalization_def example_table_def RISK_ALIASES_def
      bind_run_def rename_column_def validate_required_def missing_def required_cols_def
      risk_level_stage_def raise_or_def get_column_def cell_def py_float_def set_column_def
      compute_risk_level_def literal_070 literal_045)

theorem df_view_is_permutation_example:
  "\<exists>df. load_pipeline example_table = ([], Inr df) \<and>
        df_index (df_view (\<lambda>i. 0) df) = [0, 1] \<and>
        mset (df_rows (df_view (\<lambda>i. 0) df)) = mset (df_rows df) \<and>
        map fst (populate_table ''ALL'' (df_view (\<lambda>i. 0) df)) = [0, 1] \<and>
        iloc (df_view (\<lambda>i. 0) df) 0 = Inr (df_rows df ! 1) \<and>
        on_select (df_view (\<lambda>i. 0) df) [0] =
          Some (Inr (df_rows df ! 1, (''Discovery'', ''T1046''),
                     [''Low-confidence anomaly'', ''Likely benign activity'']))"
proof -
  from example_table_loaded obtain df where
    l: "load_pipeline example_table = ([], Inr df)" and
    len: "length (df_rows df) = 2" and
    cells: "cell (df_rows df ! 1) ''alert_type'' = PyStr ''PORT_SCAN''"
      "cell (df_rows df ! 1) ''risk_score'' = PyFloat NaN"
    by (elim exE conjE)
  let ?v = "df_view (\<lambda>i. 0) df"
  have u: "[0..<2] = [0, Suc 0]" by (simp add: upt_rec)
  have p: "permutation (\<lambda>i. 0) 2 = [Suc 0, 0]"
    by (simp add: permutation_def u)
  have rows: "df_rows ?v = [df_rows df ! Suc 0, df_rows df ! 0]"
    by (simp add: df_view_fields(2) len p)
  have idx: "df_index ?v = [0, Suc 0]"
    by (simp add: df_view_fields(3) rows u)
  have items: "populate_table ''ALL'' ?v = [(0, df_rows df ! Suc 0), (Suc 0, df_rows df ! 0)]"
    by (simp add: populate_table_items idx rows)
  then have item: "(0, df_rows df ! Suc 0) \<in> set (populate_table ''ALL'' ?v)"
    by simp
  note t = df_view_is_permutation [of "\<lambda>i. 0" df "''ALL''" example_table "[]" "[]"]
  from t have ms: "mset (df_rows ?v) = mset (df_rows df)"
    by (elim conjE)
  from t have il_all: "\<forall>(i, r)\<in>set (populate_table ''ALL'' ?v). r \<in> set (df_rows df) \<and> iloc ?v i = Inr r"
    by (elim conjE)
  from t l have sel_all: "\<forall>(i, r)\<in>set (populate_table ''ALL'' ?v).
           \<exists>x expl. cell r ''risk_score'' = PyFloat x \<and> ml_explanation (PyFloat x) = Inr expl \<and>
             on_select ?v (i # []) = Some (Inr (r, mitre_lookup (cell r ''alert_type''), expl))"
    by (elim conjE) (erule mp)
  from bspec [OF il_all item] have il: "iloc ?v 0 = Inr (df_rows df ! 1)"
    by simp
  from bspec [OF sel_all item] have
    "\<exists>x expl. cell (df_rows df ! Suc 0) ''risk_score'' = PyFloat x \<and> ml_explanation (PyFloat x) = Inr expl \<and>
       on_select ?v [0] = Some (Inr (df_rows df ! Suc 0, mitre_lookup (cell (df_rows df ! Suc 0) ''alert_type''), expl))"
    by simp
  then obtain x expl where
    x: "cell (df_rows df ! Suc 0) ''risk_score'' = PyFloat x" and
    e: "ml_explanation (PyFloat x) = Inr expl" and
    o: "on_select ?v [0] = Some (Inr (df_rows df ! Suc 0, mitre_lookup (cell (df_rows df ! Suc 0) ''alert_type''), expl))"
    by (elim exE conjE)
  from x cells have "x = NaN" by simp
  with e have ex: "expl = [''Low-confidence anomaly'', ''Likely benign activity'']"
    by (simp add: ml_explanation_def py_ge_def literal_075 literal_045)
  have mi: "mitre_lookup (cell (df_rows df ! Suc 0) ''alert_type'') = (''Discovery'', ''T1046'')"
    using cells by (simp add: mitre_lookup_def MITRE_MAP_def)
  have sel: "on_select ?v [0] =
          Some (Inr (df_rows df ! 1, (''Discovery'', ''T1046''),
                     [''Low-confidence anomaly'', ''Likely benign activity'']))"
    using o unfolding ex mi by simp
  have pf: "map fst (populate_table ''ALL'' ?v) = [0, 1]"
    by (simp add: items)
  have idx1: "df_index ?v = [0, 1]"
    using idx by simp
  show ?thesis
    by (intro exI [of _ df] conjI) (rule l idx1 ms pf il sel)+
qed

end
